theory Spec2Isabelle
  imports Main
begin

section \<open>Strings\<close>

text \<open>
  A JavaScript string is modelled as a \<^typ>\<open>string\<close>: the bytes of the UTF-8 encoding of
  its text.  A value that is \<open>undefined\<close>, \<open>null\<close> or the empty string is falsy in
  the source; where the source writes \<open>x || ''\<close> the model uses the empty string for
  all three.
\<close>

text \<open>\<open>s.startsWith(p)\<close> and the anchored regular expressions of the source.\<close>

fun startsWith :: "string \<Rightarrow> string \<Rightarrow> bool" where
  "startsWith s [] = True"
| "startsWith [] (p # ps) = False"
| "startsWith (c # cs) (p # ps) = (c = p \<and> startsWith cs ps)"

text \<open>
  The white space and line terminator characters of the language, which
  \<open>String.prototype.trim\<close> removes and the class \<open>\s\<close> matches: U+0009 to U+000D,
  U+0020, U+00A0, U+1680, U+2000 to U+200A, U+2028, U+2029, U+202F, U+205F, U+3000 and
  U+FEFF, each as its encoding.  No encoding is the beginning of another, and each starts
  with a byte that begins a character, so that a match at the start or at the end of the
  bytes is a match of the first or the last character.
\<close>

definition white_space :: "string list" where
  "white_space =
     [[CHR 0x09], [CHR 0x0A], [CHR 0x0B], [CHR 0x0C], [CHR 0x0D], [CHR 0x20],
      [CHR 0xC2, CHR 0xA0],
      [CHR 0xE1, CHR 0x9A, CHR 0x80],
      [CHR 0xE2, CHR 0x80, CHR 0x80], [CHR 0xE2, CHR 0x80, CHR 0x81],
      [CHR 0xE2, CHR 0x80, CHR 0x82], [CHR 0xE2, CHR 0x80, CHR 0x83],
      [CHR 0xE2, CHR 0x80, CHR 0x84], [CHR 0xE2, CHR 0x80, CHR 0x85],
      [CHR 0xE2, CHR 0x80, CHR 0x86], [CHR 0xE2, CHR 0x80, CHR 0x87],
      [CHR 0xE2, CHR 0x80, CHR 0x88], [CHR 0xE2, CHR 0x80, CHR 0x89],
      [CHR 0xE2, CHR 0x80, CHR 0x8A],
      [CHR 0xE2, CHR 0x80, CHR 0xA8], [CHR 0xE2, CHR 0x80, CHR 0xA9],
      [CHR 0xE2, CHR 0x80, CHR 0xAF],
      [CHR 0xE2, CHR 0x81, CHR 0x9F],
      [CHR 0xE3, CHR 0x80, CHR 0x80],
      [CHR 0xEF, CHR 0xBB, CHR 0xBF]]"

text \<open>
  \<open>strip ws s\<close> removes from the start of \<open>s\<close> every leading occurrence of a
  sequence of \<open>ws\<close>; \<open>trim\<close> strips the white space at the start and, read
  backwards, at the end.
\<close>

fun strip :: "string list \<Rightarrow> string \<Rightarrow> string" where
  "strip ws [] = []"
| "strip ws (c # cs) =
     (case find (startsWith (c # cs)) ws of
        None \<Rightarrow> c # cs
      | Some w \<Rightarrow> strip ws (drop (length w - 1) cs))"

definition trim :: "string \<Rightarrow> string" where
  "trim s = rev (strip (map rev white_space) (rev (strip white_space s)))"

text \<open>
  \<open>s.length\<close> counts UTF-16 code units: one for a character of one to three bytes,
  two for a character of four bytes.  A character starts at every byte that is not a
  continuation byte (\<open>0x80\<close> to \<open>0xBF\<close>); the first byte of a character of four bytes
  is \<open>0xF0\<close> or more.
\<close>

definition str_length :: "string \<Rightarrow> nat" where
  "str_length s =
     length (filter (\<lambda>c. \<not> (0x80 \<le> (of_char c :: nat) \<and> (of_char c :: nat) < 0xC0)) s) +
     length (filter (\<lambda>c. 0xF0 \<le> (of_char c :: nat)) s)"



text \<open>SQLite's \<open>lower()\<close> folds the ASCII letters only.\<close>

definition lower_char :: "char \<Rightarrow> char" where
  "lower_char c =
     (case map_of (zip ''ABCDEFGHIJKLMNOPQRSTUVWXYZ'' ''abcdefghijklmnopqrstuvwxyz'') c of
        Some l \<Rightarrow> l
      | None \<Rightarrow> c)"

definition lower :: "string \<Rightarrow> string" where
  "lower s = map lower_char s"

text \<open>The check mark U+2713 of the tool's result strings, as its UTF-8 bytes.\<close>

definition check_mark :: string where
  "check_mark = [CHR 0xE2, CHR 0x9C, CHR 0x93]"

section \<open>The database (src/db/database.js)\<close>

text \<open>
  Each table is the list of its rows in insertion order; an \<open>AUTOINCREMENT\<close> key is
  the table's sequence counter.  \<open>unixepoch()\<close> is the parameter \<open>now\<close> of the
  operations: the clock counts whole seconds.
\<close>

record conversation_row =
  conv_id :: nat
  conv_user_id :: nat
  conv_title :: string
  conv_created_at :: nat
  conv_updated_at :: nat

record message_row =
  msg_id :: nat
  msg_conversation_id :: nat
  msg_role :: string
  msg_content :: string
  msg_created_at :: nat

record memory_row =
  mem_id :: nat
  mem_user_id :: nat
  mem_content :: string
  mem_created_at :: nat
  mem_updated_at :: nat

record mcp_server_row =
  srv_id :: nat
  srv_user_id :: nat
  srv_name :: string
  srv_url :: string
  srv_enabled :: bool
  srv_created_at :: nat
  srv_auth_type :: string
  srv_auth_data :: string

record database =
  db_conversations :: "conversation_row list"
  db_messages :: "message_row list"
  db_messages_seq :: nat
  db_settings :: "(nat \<times> string) \<rightharpoonup> string"
  db_memory :: "memory_row list"
  db_memory_seq :: nat
  db_mcp_servers :: "mcp_server_row list"

text \<open>\<open>INSERT INTO memory(user_id, content) VALUES (?, ?)\<close>\<close>

definition insert_memory :: "nat \<Rightarrow> nat \<Rightarrow> string \<Rightarrow> database \<Rightarrow> database" where
  "insert_memory now userId content db =
     db\<lparr>db_memory := db_memory db @
           [\<lparr>mem_id = Suc (db_memory_seq db), mem_user_id = userId, mem_content = content,
             mem_created_at = now, mem_updated_at = now\<rparr>],
        db_memory_seq := Suc (db_memory_seq db)\<rparr>"


text \<open>\<open>UPDATE conversations SET updated_at = unixepoch() WHERE id = ?\<close>\<close>

definition touch_conversation :: "nat \<Rightarrow> nat \<Rightarrow> database \<Rightarrow> database" where
  "touch_conversation now convId db =
     db\<lparr>db_conversations :=
          map (\<lambda>c. if conv_id c = convId then c\<lparr>conv_updated_at := now\<rparr> else c)
            (db_conversations db)\<rparr>"

text \<open>\<open>getUserSettings\<close>: the user's settings as an object, key to value.\<close>

definition getUserSettings :: "database \<Rightarrow> nat \<Rightarrow> (string \<rightharpoonup> string)" where
  "getUserSettings db userId = (\<lambda>k. db_settings db (userId, k))"

text \<open>\<open>setSetting\<close>: the upsert of one setting.\<close>

definition setSetting :: "nat \<Rightarrow> string \<Rightarrow> string \<Rightarrow> database \<Rightarrow> database" where
  "setSetting userId k v db = db\<lparr>db_settings := (db_settings db)((userId, k) \<mapsto> v)\<rparr>"

text \<open>The facts of one user (\<open>SELECT ... FROM memory WHERE user_id = ?\<close>).\<close>

definition user_memory :: "database \<Rightarrow> nat \<Rightarrow> memory_row list" where
  "user_memory db userId = filter (\<lambda>r. mem_user_id r = userId) (db_memory db)"

section \<open>Memory facts\<close>

subsection \<open>The \<open>memory_save\<close> tool (handleBuiltinTool, src/services/tools.js)\<close>

text \<open>
  Tool arguments are the parsed JSON object of the call, a finite list of fields;
  \<open>args.k || ''\<close> is \<open>arg a k\<close>.
\<close>

type_synonym args = "(string \<times> string) list"

definition arg :: "args \<Rightarrow> string \<Rightarrow> string" where
  "arg a k = (case map_of a k of Some v \<Rightarrow> v | None \<Rightarrow> [])"

definition memory_dupe :: "database \<Rightarrow> nat \<Rightarrow> string \<Rightarrow> memory_row option" where
  "memory_dupe db userId fct =
     find (\<lambda>r. mem_user_id r = userId \<and> lower (mem_content r) = lower fct) (db_memory db)"

definition memory_save :: "nat \<Rightarrow> nat \<Rightarrow> args \<Rightarrow> database \<Rightarrow> string \<times> database" where
  "memory_save now userId a db =
     (let fct = trim (arg a ''fact'') in
      if fct = [] then (''Error: No fact provided.'', db)
      else (case memory_dupe db userId fct of
              Some dupe \<Rightarrow> (check_mark @ '' Already remembered: \"'' @ fct @ ''\"'', db)
            | None \<Rightarrow> (check_mark @ '' Saved to memory: \"'' @ fct @ ''\"'',
                       insert_memory now userId fct db)))"

subsection \<open>\<open>POST /api/memory\<close> (routes/memory, src/unnamed/part_006)\<close>

text \<open>
  A route answers with a status and an error message, or with a JSON value.
  The request body's \<open>content\<close> is \<open>None\<close> when absent.
\<close>

datatype 'a response = Status nat string | Json 'a

definition post_memory ::
  "nat \<Rightarrow> nat \<Rightarrow> string option \<Rightarrow> database \<Rightarrow> memory_row response \<times> database" where
  "post_memory now userId body_content db =
     (case body_content of
        None \<Rightarrow> (Status 400 ''Content required'', db)
      | Some content \<Rightarrow>
          if trim content = [] then (Status 400 ''Content required'', db)
          else if str_length content > 1000
            then (Status 400 ''Memory fact too long (max 1000 chars)'', db)
          else if length (user_memory db userId) \<ge> 500
            then (Status 400
                   ''Memory limit reached (500 facts max). Delete some facts first.'', db)
          else (let db' = insert_memory now userId (trim content) db
                in (Json (last (db_memory db')), db')))"

subsection \<open>Auto-memory insertion (onDone of \<open>POST /api/ai/chat\<close>, src/unnamed/part_006)\<close>

text \<open>
  \<open>extractMemories\<close> asks the provider for new facts; what it yields is the list
  \<open>newFacts\<close>.  The continuation inserts every yielded fact.
\<close>

definition auto_memory_insert :: "nat \<Rightarrow> nat \<Rightarrow> string list \<Rightarrow> database \<Rightarrow> database" where
  "auto_memory_insert now userId newFacts db =
     (if newFacts = [] then db
      else foldl (\<lambda>d f. insert_memory now userId f d) db newFacts)"

section \<open>Editing a message (\<open>PATCH /api/chats/:id/messages/:msgId\<close>, src/unnamed/part_004)\<close>

datatype edit_ok = EditOk (deletedFrom: nat)

definition patch_message ::
  "nat \<Rightarrow> nat \<Rightarrow> nat \<Rightarrow> nat \<Rightarrow> string option \<Rightarrow> database \<Rightarrow> edit_ok response \<times> database" where
  "patch_message now userId convId msgId body_content db =
     (case find (\<lambda>c. conv_id c = convId \<and> conv_user_id c = userId) (db_conversations db) of
        None \<Rightarrow> (Status 404 ''Conversation not found'', db)
      | Some conv \<Rightarrow>
          (case find (\<lambda>m. msg_id m = msgId \<and> msg_conversation_id m = conv_id conv)
                  (db_messages db) of
             None \<Rightarrow> (Status 404 ''Message not found'', db)
           | Some msg \<Rightarrow>
               if msg_role msg \<noteq> ''user''
                 then (Status 400 ''Only user messages can be edited'', db)
               else if (case body_content of None \<Rightarrow> True | Some c \<Rightarrow> trim c = [])
                 then (Status 400 ''Content required'', db)
               else
                 (let db1 = db\<lparr>db_messages :=
                              filter (\<lambda>m. \<not> (msg_conversation_id m = conv_id conv \<and>
                                               msg_created_at m \<ge> msg_created_at msg))
                                (db_messages db)\<rparr>;
                      db2 = touch_conversation now (conv_id conv) db1
                  in (Json (EditOk (msg_created_at msg)), db2))))"

section \<open>Settings (routes/settings, src/unnamed/part_005)\<close>

text \<open>
  A settings response is a JSON object whose values are strings (the stored or default
  settings) or booleans (the two flags \<open>maskSettings\<close> adds).  The body of a
  \<open>PATCH\<close> is \<open>None\<close> when it is not an object; otherwise it is the list of its
  entries, each value being its string form, or \<open>None\<close> for \<open>null\<close> and
  \<open>undefined\<close> (\<open>String(v ?? '')\<close>).
\<close>

datatype setting_value = Str string | Bool bool

definition ALLOWED_KEYS :: "string list" where
  "ALLOWED_KEYS = [''model'', ''provider'', ''custom_instructions'', ''memory_enabled'',
     ''temperature'', ''system_prompt'', ''stream_enabled'', ''openai_api_key'', ''auto_memory'',
     ''tavily_api_key'', ''chat_mode'']"

definition DEFAULTS :: "string \<rightharpoonup> string" where
  "DEFAULTS = map_of
     [(''model'', ''gpt-5-mini''),
      (''provider'', ''openai''),
      (''custom_instructions'', ''''),
      (''memory_enabled'', ''1''),
      (''temperature'', ''0.7''),
      (''system_prompt'', ''You are a helpful, harmless, and honest AI assistant.''),
      (''stream_enabled'', ''1''),
      (''auto_memory'', ''1''),
      (''chat_mode'', ''normal'')]"

definition MAX_LENGTHS :: "string \<rightharpoonup> nat" where
  "MAX_LENGTHS = map_of
     [(''custom_instructions'', 4000), (''system_prompt'', 4000), (''model'', 64),
      (''provider'', 64), (''chat_mode'', 32)]"

definition key_set :: "string option \<Rightarrow> bool" where
  "key_set v = (case v of None \<Rightarrow> False | Some s \<Rightarrow> s \<noteq> [] \<and> trim s \<noteq> [])"

definition maskSettings :: "(string \<rightharpoonup> string) \<Rightarrow> (string \<rightharpoonup> setting_value)" where
  "maskSettings merged =
     (let openai_api_key_set = key_set (merged ''openai_api_key'');
          tavily_api_key_set = key_set (merged ''tavily_api_key'');
          out = merged(''openai_api_key'' := None, ''tavily_api_key'' := None)
      in (map_option Str \<circ> out)
           (''openai_api_key_set'' \<mapsto> Bool openai_api_key_set,
            ''tavily_api_key_set'' \<mapsto> Bool tavily_api_key_set))"

definition get_settings :: "nat \<Rightarrow> database \<Rightarrow> (string \<rightharpoonup> setting_value)" where
  "get_settings userId db = maskSettings (DEFAULTS ++ getUserSettings db userId)"

definition apply_update :: "nat \<Rightarrow> database \<Rightarrow> string \<times> string option \<Rightarrow> database" where
  "apply_update userId db kv =
     (let k = fst kv;
          val = (case snd kv of None \<Rightarrow> [] | Some s \<Rightarrow> s)
      in if k \<notin> set ALLOWED_KEYS then db
         else (case MAX_LENGTHS k of
                 Some mx \<Rightarrow> if str_length val > mx then db else setSetting userId k val db
               | None \<Rightarrow> setSetting userId k val db))"

definition patch_settings ::
  "nat \<Rightarrow> (string \<times> string option) list option \<Rightarrow> database
     \<Rightarrow> (string \<rightharpoonup> setting_value) response \<times> database" where
  "patch_settings userId body db =
     (case body of
        None \<Rightarrow> (Status 400 ''Invalid body'', db)
      | Some updates \<Rightarrow>
          (let db' = foldl (apply_update userId) db updates
           in (Json (maskSettings (DEFAULTS ++ getUserSettings db' userId)), db')))"

text \<open>
  Two databases hold the same settings for a user except for the values of the two
  API keys, and each key is set in both or in neither.
\<close>

definition same_but_keys :: "nat \<Rightarrow> database \<Rightarrow> database \<Rightarrow> bool" where
  "same_but_keys userId db1 db2 =
     ((\<forall>k. k = ''openai_api_key'' \<or> k = ''tavily_api_key'' \<or>
            db_settings db1 (userId, k) = db_settings db2 (userId, k)) \<and>
      key_set (db_settings db1 (userId, ''openai_api_key'')) =
        key_set (db_settings db2 (userId, ''openai_api_key'')) \<and>
      key_set (db_settings db1 (userId, ''tavily_api_key'')) =
        key_set (db_settings db2 (userId, ''tavily_api_key'')))"

text \<open>
  Two bodies of a \<open>PATCH\<close> hold the same entries except for the values given for the
  two API keys, and each such value is a set key in both or in neither.
\<close>

definition same_key_updates ::
  "(string \<times> string option) list \<Rightarrow> (string \<times> string option) list \<Rightarrow> bool" where
  "same_key_updates ups1 ups2 =
     list_all2 (\<lambda>a b. fst a = fst b \<and>
                   (snd a = snd b \<or>
                    ((fst a = ''openai_api_key'' \<or> fst a = ''tavily_api_key'') \<and>
                     key_set (snd a) = key_set (snd b)))) ups1 ups2"

section \<open>More string operations\<close>

text \<open>
  \<open>s.includes(t)\<close>, \<open>xs.join(sep)\<close>, \<open>s.split(c)\<close> for a one-character
  separator, \<open>s.split(/\s+/).filter(Boolean)\<close>, and \<open>s.replace(pat, rep)\<close> for a
  string pattern (the first occurrence only).
\<close>

fun str_includes :: "string \<Rightarrow> string \<Rightarrow> bool" where
  "str_includes [] t = (t = [])"
| "str_includes (c # cs) t = (startsWith (c # cs) t \<or> str_includes cs t)"

fun join :: "string \<Rightarrow> string list \<Rightarrow> string" where
  "join sep [] = []"
| "join sep [x] = x"
| "join sep (x # y # ys) = x @ sep @ join sep (y # ys)"

fun split_on :: "char \<Rightarrow> string \<Rightarrow> string \<Rightarrow> string list" where
  "split_on sep cur [] = [cur]"
| "split_on sep cur (c # cs) =
     (if c = sep then cur # split_on sep [] cs else split_on sep (cur @ [c]) cs)"

fun split_ws :: "string \<Rightarrow> string \<Rightarrow> string list" where
  "split_ws cur [] = (if cur = [] then [] else [cur])"
| "split_ws cur (c # cs) =
     (case find (startsWith (c # cs)) white_space of
        None \<Rightarrow> split_ws (cur @ [c]) cs
      | Some w \<Rightarrow> (if cur = [] then split_ws [] (drop (length w - 1) cs)
                  else cur # split_ws [] (drop (length w - 1) cs)))"

fun replace_first :: "string \<Rightarrow> string \<Rightarrow> string \<Rightarrow> string" where
  "replace_first pat rep [] = []"
| "replace_first pat rep (c # cs) =
     (if startsWith (c # cs) pat then rep @ drop (length pat) (c # cs)
      else c # replace_first pat rep cs)"

section \<open>Remote tool gateway (services/mcp, in src/services/tools.js)\<close>

subsection \<open>URL validation\<close>

text \<open>
  \<open>new URL(rawUrl)\<close> is the platform's parser: it either throws or yields an object of
  which the code reads \<open>protocol\<close> and \<open>hostname\<close>.  The parser is the parameter
  \<open>parseURL\<close> of the model (\<open>None\<close> when it throws).
\<close>

record url =
  url_protocol :: string
  url_hostname :: string

text \<open>
  \<open>PRIVATE_IP_RE\<close> is
  \<open>/^(127\.|10\.|172\.(1[6-9]|2\d|3[01])\.|192\.168\.|169\.254\.|::1|fc|fd|fe80)/i\<close>:
  anchored at the start of the host name, letters compared without case.
\<close>

definition is_digit :: "char \<Rightarrow> bool" where
  "is_digit c = (c \<in> set ''0123456789'')"

definition private_172 :: "string \<Rightarrow> bool" where
  "private_172 h =
     (startsWith h ''172.'' \<and>
      (case drop 4 h of
         d1 # d2 # d3 # rest \<Rightarrow>
           ((d1 = CHR ''1'' \<and> d2 \<in> set ''6789'') \<or> (d1 = CHR ''2'' \<and> is_digit d2) \<or>
            (d1 = CHR ''3'' \<and> d2 \<in> set ''01'')) \<and> d3 = CHR ''.''
       | _ \<Rightarrow> False))"

definition PRIVATE_IP_RE :: "string \<Rightarrow> bool" where
  "PRIVATE_IP_RE host =
     (let h = lower host in
      startsWith h ''127.'' \<or> startsWith h ''10.'' \<or> private_172 h \<or>
      startsWith h ''192.168.'' \<or> startsWith h ''169.254.'' \<or> startsWith h ''::1'' \<or>
      startsWith h ''fc'' \<or> startsWith h ''fd'' \<or> startsWith h ''fe80'')"

text \<open>
  \<open>validateMcpUrl\<close> throws an \<open>Error\<close>; the model returns its message on the left.
\<close>

definition validateMcpUrl :: "(string \<Rightarrow> url option) \<Rightarrow> string \<Rightarrow> string + unit" where
  "validateMcpUrl parseURL rawUrl =
     (case parseURL rawUrl of
        None \<Rightarrow> Inl ''Invalid MCP server URL''
      | Some parsed \<Rightarrow>
          if url_protocol parsed \<noteq> ''http:'' \<and> url_protocol parsed \<noteq> ''https:''
            then Inl ''MCP server URL must use http or https''
          else if PRIVATE_IP_RE (url_hostname parsed) \<or> url_hostname parsed = ''localhost''
            then Inl ''MCP server URL must not point to a private or loopback address''
          else Inr ())"

subsection \<open>Requests\<close>

text \<open>
  The JSON values that travel: a tool as a server lists it, a content block of a tool
  result (\<open>c_json\<close> is \<open>JSON.stringify\<close> of the block), the \<open>result\<close> member of a
  reply (\<open>res_json\<close> is \<open>JSON.stringify\<close> of it), and the JSON-RPC envelope.
  An HTTP response carries its status in decimal, its content type (empty when the
  header is absent), what \<open>res.json()\<close> gives (on the left the message of its
  rejection) and the complete lines of its body.  \<open>fetch\<close> either rejects with a
  message (a network failure, or the abort after ten seconds) or resolves to a response.
\<close>

record auth =
  auth_type :: string
  auth_token :: string

record mcp_tool =
  tool_name :: string
  tool_description :: string
  tool_inputSchema :: string

record content_block =
  c_type :: string
  c_text :: string
  c_json :: string

record mcp_result =
  res_tools :: "mcp_tool list"
  res_content :: "content_block list option"
  res_json :: string

record rpc_json =
  rpc_error :: "(string \<times> string) option"
  rpc_result :: "mcp_result option"

datatype rpc_params = InitializeParams | NoParams | CallParams string args

record http_request =
  rq_url :: string
  rq_id :: nat
  rq_method :: string
  rq_params :: rpc_params
  rq_authorization :: "string option"

record http_response =
  rs_ok :: bool
  rs_status :: string
  rs_content_type :: string
  rs_json :: "string + rpc_json"
  rs_lines :: "string list"

datatype fetch_result = FetchFailed string | Fetched http_response

text \<open>
  What the gateway takes from the platform: the URL parser, \<open>fetch\<close>, and
  \<open>JSON.parse\<close> for an event-stream data line (\<open>None\<close> when it throws, or when
  the parsed value is not an object) and for a server's \<open>auth_data\<close> (\<open>None\<close>
  when it throws; otherwise the value \<open>null\<close>, or the fields of the parsed value,
  each in its string form and a falsy one as the empty string; a value that is not an
  object has no fields).
\<close>

datatype auth_json = JsonNull | JsonObject args

record platform =
  parseURL :: "string \<Rightarrow> url option"
  fetch :: "http_request \<Rightarrow> fetch_result"
  parseRpc :: "string \<Rightarrow> rpc_json option"
  parseAuth :: "string \<Rightarrow> auth_json option"

text \<open>
  The gateway's state: the process-wide request counter \<open>_reqId\<close>, and the log of
  the requests handed to \<open>fetch\<close>, which is how the model observes network I/O.
\<close>

record net =
  net_reqId :: nat
  net_log :: "http_request list"

definition nextId :: "net \<Rightarrow> nat \<times> net" where
  "nextId n = (net_reqId n, n\<lparr>net_reqId := Suc (net_reqId n)\<rparr>)"

definition mcp_error :: "string \<times> string \<Rightarrow> string" where
  "mcp_error e = ''MCP error ['' @ fst e @ '']: '' @ snd e"

text \<open>
  \<open>readSSEResult\<close> over the complete lines of the body: the first \<open>data: \<close> line
  whose JSON has a \<open>result\<close> wins, an \<open>error\<close> member throws, an unreadable line
  is skipped.
\<close>

fun readSSEResult :: "(string \<Rightarrow> rpc_json option) \<Rightarrow> string list \<Rightarrow> string + mcp_result option" where
  "readSSEResult parse [] = Inl ''MCP server closed without sending a result''"
| "readSSEResult parse (line # rest) =
     (if startsWith line ''data: '' then
        (case parse (drop 6 line) of
           None \<Rightarrow> readSSEResult parse rest
         | Some json \<Rightarrow>
             (case rpc_error json of
                Some e \<Rightarrow> Inl (mcp_error e)
              | None \<Rightarrow>
                  (case rpc_result json of
                     Some r \<Rightarrow> Inr (Some r)
                   | None \<Rightarrow> readSSEResult parse rest)))
      else readSSEResult parse rest)"

definition bearer :: "auth option \<Rightarrow> string option" where
  "bearer a =
     (case a of
        None \<Rightarrow> None
      | Some au \<Rightarrow>
          if auth_token au \<noteq> [] \<and> (auth_type au = ''token'' \<or> auth_type au = ''oauth'')
            then Some (''Bearer '' @ auth_token au)
          else None)"

definition mcpRequest ::
  "platform \<Rightarrow> string \<Rightarrow> string \<Rightarrow> rpc_params \<Rightarrow> auth option \<Rightarrow> net
     \<Rightarrow> (string + mcp_result option) \<times> net" where
  "mcpRequest pf serverUrl method params a n =
     (case validateMcpUrl (parseURL pf) serverUrl of
        Inl e \<Rightarrow> (Inl e, n)
      | Inr ok \<Rightarrow>
          (let rq = \<lparr>rq_url = serverUrl, rq_id = fst (nextId n), rq_method = method,
                      rq_params = params, rq_authorization = bearer a\<rparr>;
               n' = (snd (nextId n))\<lparr>net_log := net_log n @ [rq]\<rparr>
           in (case fetch pf rq of
                 FetchFailed e \<Rightarrow> (Inl e, n')
               | Fetched res \<Rightarrow>
                   if \<not> rs_ok res
                     then (Inl (''MCP server '' @ serverUrl @ '' responded '' @ rs_status res), n')
                   else if str_includes (rs_content_type res) ''text/event-stream''
                     then (readSSEResult (parseRpc pf) (rs_lines res), n')
                   else (case rs_json res of
                           Inl e \<Rightarrow> (Inl e, n')
                         | Inr json \<Rightarrow>
                             (case rpc_error json of
                                Some e \<Rightarrow> (Inl (mcp_error e), n')
                              | None \<Rightarrow> (Inr (rpc_result json), n'))))))"

definition mcpInitialize ::
  "platform \<Rightarrow> string \<Rightarrow> auth option \<Rightarrow> net \<Rightarrow> (string + mcp_result option) \<times> net" where
  "mcpInitialize pf serverUrl a n = mcpRequest pf serverUrl ''initialize'' InitializeParams a n"

text \<open>
  \<open>listTools\<close> and \<open>callTool\<close> catch every error of the two requests they make.
\<close>

definition listTools :: "platform \<Rightarrow> string \<Rightarrow> auth option \<Rightarrow> net \<Rightarrow> mcp_tool list \<times> net" where
  "listTools pf serverUrl a n =
     (case mcpInitialize pf serverUrl a n of
        (Inl e, n1) \<Rightarrow> ([], n1)
      | (Inr r0, n1) \<Rightarrow>
          (case mcpRequest pf serverUrl ''tools/list'' NoParams a n1 of
             (Inl e, n2) \<Rightarrow> ([], n2)
           | (Inr None, n2) \<Rightarrow> ([], n2)
           | (Inr (Some r), n2) \<Rightarrow> (res_tools r, n2)))"

definition text_block :: "string \<Rightarrow> content_block" where
  "text_block t = \<lparr>c_type = ''text'', c_text = t, c_json = []\<rparr>"

definition callTool ::
  "platform \<Rightarrow> string \<Rightarrow> string \<Rightarrow> args \<Rightarrow> auth option \<Rightarrow> net \<Rightarrow> content_block list \<times> net" where
  "callTool pf serverUrl toolName a au n =
     (case mcpInitialize pf serverUrl au n of
        (Inl e, n1) \<Rightarrow> ([text_block (''Tool error: '' @ e)], n1)
      | (Inr r0, n1) \<Rightarrow>
          (case mcpRequest pf serverUrl ''tools/call'' (CallParams toolName a) au n1 of
             (Inl e, n2) \<Rightarrow> ([text_block (''Tool error: '' @ e)], n2)
           | (Inr None, n2) \<Rightarrow> ([text_block []], n2)
           | (Inr (Some r), n2) \<Rightarrow>
               ((case res_content r of
                   Some cs \<Rightarrow> cs
                 | None \<Rightarrow> [text_block (res_json r)]), n2)))"

subsection \<open>Discovery\<close>

text \<open>
  \<open>buildAuth\<close> returns \<open>null\<close> or an auth object.  When \<open>auth_data\<close> parses to
  \<open>null\<close>, reading \<open>data.token\<close> throws a \<open>TypeError\<close>: the result is then
  \<open>None\<close>.
\<close>

definition buildAuth :: "platform \<Rightarrow> mcp_server_row \<Rightarrow> auth option option" where
  "buildAuth pf srv =
     (if srv_auth_type srv = [] \<or> srv_auth_type srv = ''none'' then Some None
      else
        (case (if srv_auth_data srv = [] then JsonObject []
               else (case parseAuth pf (srv_auth_data srv) of
                       Some d \<Rightarrow> d
                     | None \<Rightarrow> JsonObject [])) of
           JsonNull \<Rightarrow> None
         | JsonObject data \<Rightarrow>
             Some (Some \<lparr>auth_type = srv_auth_type srv,
                          auth_token = (if arg data ''token'' \<noteq> [] then arg data ''token''
                                        else arg data ''access_token'')\<rparr>)))"

text \<open>\<open>getUserMCPServers\<close>: the user's enabled servers, oldest first.\<close>

definition getUserMCPServers :: "database \<Rightarrow> nat \<Rightarrow> mcp_server_row list" where
  "getUserMCPServers db userId =
     sort_key srv_created_at
       (filter (\<lambda>s. srv_user_id s = userId \<and> srv_enabled s) (db_mcp_servers db))"

text \<open>
  A tool in the provider's format.  \<open>td_mcpServer\<close> is the \<open>_mcpServer\<close> tag of a
  remote tool.
\<close>

record tool_def =
  td_name :: string
  td_description :: string
  td_parameters :: string
  td_mcpServer :: "string option"

definition mcpToolsToOpenAI :: "mcp_tool list \<Rightarrow> string \<Rightarrow> tool_def list" where
  "mcpToolsToOpenAI mcpTools serverUrl =
     map (\<lambda>t. \<lparr>td_name = tool_name t, td_description = tool_description t,
                 td_parameters = (if tool_inputSchema t \<noteq> [] then tool_inputSchema t
                                  else ''{\"type\":\"object\",\"properties\":{}}''),
                 td_mcpServer = Some serverUrl\<rparr>) mcpTools"

text \<open>
  \<open>collectMCPTools\<close> starts one asynchronous task per server.  Each task builds the
  auth object, awaits \<open>listTools\<close> and then, without a further suspension, merges the
  tools it got into the shared list and map; a task in which \<open>buildAuth\<close> throws is
  rejected and merges nothing.  The tasks therefore merge one after the other, in the
  order in which their \<open>listTools\<close> calls settle.  In the model \<open>listed srv\<close> is
  what \<open>listTools\<close> resolved to for \<open>srv\<close>, and \<open>settled\<close> is that order, as
  positions in \<open>servers\<close>.
\<close>

record server_info =
  si_url :: string
  si_auth :: "auth option"

type_synonym catalog = "tool_def list \<times> (string \<rightharpoonup> server_info)"

definition merge_tool :: "mcp_server_row \<Rightarrow> auth option \<Rightarrow> catalog \<Rightarrow> mcp_tool \<Rightarrow> catalog" where
  "merge_tool srv a cat t =
     (case snd cat (tool_name t) of
        None \<Rightarrow> (fst cat @ mcpToolsToOpenAI [t] (srv_url srv),
                 (snd cat)(tool_name t \<mapsto> \<lparr>si_url = srv_url srv, si_auth = a\<rparr>))
      | Some taken \<Rightarrow> cat)"

definition merge_server ::
  "platform \<Rightarrow> (mcp_server_row \<Rightarrow> mcp_tool list) \<Rightarrow> catalog \<Rightarrow> mcp_server_row \<Rightarrow> catalog" where
  "merge_server pf listed cat srv =
     (case buildAuth pf srv of
        None \<Rightarrow> cat
      | Some a \<Rightarrow> foldl (merge_tool srv a) cat (listed srv))"

definition collectMCPTools ::
  "platform \<Rightarrow> (mcp_server_row \<Rightarrow> mcp_tool list) \<Rightarrow> mcp_server_row list \<Rightarrow> nat list \<Rightarrow> catalog" where
  "collectMCPTools pf listed servers settled =
     foldl (merge_server pf listed) ([], Map.empty)
       (map (\<lambda>i. servers ! i) (filter (\<lambda>i. i < length servers) settled))"

subsection \<open>The hosts the gateway rejects\<close>

text \<open>
  The beginnings of a host name that \<open>PRIVATE_IP_RE\<close> matches, written out one by
  one, and the three messages of \<open>validateMcpUrl\<close>.
\<close>

definition private_prefixes :: "string list" where
  "private_prefixes =
     [''127.'', ''10.'',
      ''172.16.'', ''172.17.'', ''172.18.'', ''172.19.'', ''172.20.'', ''172.21.'', ''172.22.'',
      ''172.23.'', ''172.24.'', ''172.25.'', ''172.26.'', ''172.27.'', ''172.28.'', ''172.29.'',
      ''172.30.'', ''172.31.'',
      ''192.168.'', ''169.254.'', ''::1'', ''fc'', ''fd'', ''fe80'']"

definition validation_errors :: "string list" where
  "validation_errors =
     [''Invalid MCP server URL'', ''MCP server URL must use http or https'',
      ''MCP server URL must not point to a private or loopback address'']"

section \<open>Built-in tools (src/services/tools.js) and the tool executor (routes/ai)\<close>

text \<open>
  What the built-in tools take from outside: \<open>String.prototype.toLowerCase\<close>, the
  platform's case mapping, and the network behind \<open>web_search\<close> and
  \<open>generate_image\<close>, where each function yields the string the tool's \<open>try\<close>
  block returns, failures included (query and raw \<open>max_results\<close>; prompt, size and
  quality).
\<close>

record tool_context =
  ctx_userId :: nat
  ctx_tavilyKey :: string
  ctx_apiKey :: string

record services =
  toLowerCase :: "string \<Rightarrow> string"
  tavily_search :: "string \<Rightarrow> string \<Rightarrow> string"
  images_generate :: "string \<Rightarrow> string \<Rightarrow> string \<Rightarrow> string"

text \<open>
  \<open>BUILTIN_TOOLS\<close>: of the four schemas the operations below read the names only;
  the descriptions and parameter objects are left empty.
\<close>

definition BUILTIN_TOOLS :: "tool_def list" where
  "BUILTIN_TOOLS =
     map (\<lambda>n. \<lparr>td_name = n, td_description = [], td_parameters = [], td_mcpServer = None\<rparr>)
       [''memory_save'', ''memory_get'', ''web_search'', ''generate_image'']"

text \<open>The arrow U+2192 of the messages, as its UTF-8 bytes.\<close>

definition arrow :: string where
  "arrow = [CHR 0xE2, CHR 0x86, CHR 0x92]"

text \<open>
  \<open>memory_get\<close> reads the facts by \<open>updated_at\<close>, latest first; facts of the
  same second come in the order of their insertion.
\<close>

definition memory_get :: "services \<Rightarrow> nat \<Rightarrow> args \<Rightarrow> database \<Rightarrow> string" where
  "memory_get sv userId a db =
     (let query = toLowerCase sv (trim (arg a ''query''));
          allFacts = rev (sort_key mem_updated_at (rev (user_memory db userId)));
          terms = split_ws [] query;
          matched = (if terms \<noteq> []
                     then filter (\<lambda>f. list_ex (\<lambda>t. str_includes (toLowerCase sv (mem_content f)) t)
                                         terms) allFacts
                     else allFacts)
      in if matched = []
         then (if query \<noteq> [] then ''No memories found matching \"'' @ arg a ''query'' @ ''\".''
               else ''No memories stored yet.'')
         else join [CHR 0x0A] (map (\<lambda>f. ''- '' @ mem_content f) matched))"

definition handleBuiltinTool ::
  "services \<Rightarrow> nat \<Rightarrow> string \<Rightarrow> args \<Rightarrow> tool_context \<Rightarrow> database \<Rightarrow> string \<times> database" where
  "handleBuiltinTool sv now name a ctx db =
     (if name = ''memory_save'' then memory_save now (ctx_userId ctx) a db
      else if name = ''memory_get'' then (memory_get sv (ctx_userId ctx) a db, db)
      else if name = ''web_search'' then
        (if ctx_tavilyKey ctx = []
           then (''Web search is not configured. The user needs to add a Tavily API key in Settings ''
                   @ arrow @ '' Model.'', db)
         else if trim (arg a ''query'') = [] then (''Error: No query provided.'', db)
         else (tavily_search sv (trim (arg a ''query'')) (arg a ''max_results''), db))
      else if name = ''generate_image'' then
        (if trim (arg a ''prompt'') = [] then (''Error: No prompt provided.'', db)
         else if ctx_apiKey ctx = []
           then (''Image generation requires an OpenAI API key set in Settings.'', db)
         else (images_generate sv (trim (arg a ''prompt''))
                 (if arg a ''size'' \<in> set [''1024x1024'', ''1792x1024'', ''1024x1792'']
                  then arg a ''size'' else ''1024x1024'')
                 (if arg a ''quality'' = ''hd'' then ''hd'' else ''standard''), db))
      else (''Unknown built-in tool: '' @ name, db))"

text \<open>
  The events the chat route writes to the client, and the state of one chat request: the
  database, the gateway's state, the events written, whether \<open>res.end()\<close> was called,
  the route's \<open>fullResponse\<close>, and whether the auto-memory extraction was started.
\<close>

datatype sse_event =
    SseDelta string
  | SseToolCall string args
  | SseToolResult string string
  | SseImageGenerated string string
  | SseDone
  | SseError string

record chat_state =
  cs_db :: database
  cs_net :: net
  cs_sse :: "sse_event list"
  cs_ended :: bool
  cs_fullResponse :: string
  cs_extracting :: bool

definition toolExecutor ::
  "platform \<Rightarrow> services \<Rightarrow> nat \<Rightarrow> tool_context \<Rightarrow> (string \<rightharpoonup> server_info) \<Rightarrow> string \<Rightarrow> args
     \<Rightarrow> chat_state \<Rightarrow> string \<times> chat_state" where
  "toolExecutor pf sv now ctx mcpToolServerMap name a st =
     (if list_ex (\<lambda>t. td_name t = name) BUILTIN_TOOLS then
        (let r = handleBuiltinTool sv now name a ctx (cs_db st);
             result = fst r;
             st1 = st\<lparr>cs_db := snd r\<rparr>
         in if startsWith result ''IMAGE_GENERATED:'' then
              (let lines = split_on (CHR 0x0A) [] result;
                   dataUrl = drop (length ''IMAGE_GENERATED:'') (case lines of [] \<Rightarrow> [] | l # ls \<Rightarrow> l);
                   revisedPrompt = replace_first ''Revised prompt: '' []
                     (case find (\<lambda>l. startsWith l ''Revised prompt:'') lines of
                        Some l \<Rightarrow> l | None \<Rightarrow> [])
               in (''Image generated successfully.'' @
                     (if revisedPrompt \<noteq> [] then '' Revised prompt: '' @ revisedPrompt else []) @
                     '' Let the user know the image is shown above.'',
                   st1\<lparr>cs_sse := cs_sse st1 @ [SseImageGenerated dataUrl revisedPrompt]\<rparr>))
            else (result, st1))
      else
        (case mcpToolServerMap name of
           Some serverInfo \<Rightarrow>
             (let r = callTool pf (si_url serverInfo) name a (si_auth serverInfo) (cs_net st)
              in (join [CHR 0x0A]
                    (map (\<lambda>c. if c_type c = ''text'' then c_text c else c_json c) (fst r)),
                  st\<lparr>cs_net := snd r\<rparr>))
         | None \<Rightarrow> (''Tool \"'' @ name @ ''\" not found'', st)))"

text \<open>
  The servers in the order their discovery settled, whether a server's task merges a
  tool of a given name, the routing entry of a server, the server tags of the catalog's
  entries of a given name, and the requests a step added to the log.
\<close>

definition settled_servers :: "mcp_server_row list \<Rightarrow> nat list \<Rightarrow> mcp_server_row list" where
  "settled_servers servers settled =
     map (\<lambda>i. servers ! i) (filter (\<lambda>i. i < length servers) settled)"

definition offers ::
  "platform \<Rightarrow> (mcp_server_row \<Rightarrow> mcp_tool list) \<Rightarrow> string \<Rightarrow> mcp_server_row \<Rightarrow> bool" where
  "offers pf listed name srv =
     (buildAuth pf srv \<noteq> None \<and> list_ex (\<lambda>t. tool_name t = name) (listed srv))"

definition info_of :: "platform \<Rightarrow> mcp_server_row \<Rightarrow> server_info" where
  "info_of pf srv =
     \<lparr>si_url = srv_url srv, si_auth = (case buildAuth pf srv of Some a \<Rightarrow> a | None \<Rightarrow> None)\<rparr>"

definition catalog_entries :: "string \<Rightarrow> catalog \<Rightarrow> string option list" where
  "catalog_entries name cat = map td_mcpServer (filter (\<lambda>t. td_name t = name) (fst cat))"

definition new_requests :: "chat_state \<Rightarrow> chat_state \<Rightarrow> http_request list" where
  "new_requests st st' = drop (length (net_log (cs_net st))) (net_log (cs_net st'))"

section \<open>Provider adapter (services/ai, src/unnamed/part_001)\<close>

text \<open>
  A thrown error has a name and a message.  A message of the running list is a plain
  turn (role and content), an assistant turn that carries tool calls, or a tool turn.
  A chunk of the provider's stream has no choice, or one choice with its text delta, its
  tool-call deltas and its finish reason (absent fields are empty).  A stream is the list
  of the chunks it delivers and, when it ends by throwing, the error.
\<close>

datatype err = Err (err_name: string) (err_message: string)

definition is_abort :: "err \<Rightarrow> bool" where
  "is_abort e = (err_name e = ''AbortError'')"

record tool_call =
  tc_id :: string
  tc_name :: string
  tc_args :: string

datatype message =
    Msg string string
  | AssistantToolCalls "string option" "tool_call list"
  | ToolMsg string string

record tc_delta =
  tcd_index :: nat
  tcd_id :: string
  tcd_name :: string
  tcd_arguments :: string

datatype chunk = NoChoice | Choice string "tc_delta list" string

record stream =
  st_chunks :: "chunk list"
  st_raised :: "err option"

text \<open>
  A number of the language is not a number, an infinity, or a finite value
  \<open>m * 2 ^ e\<close>; it is falsy when it is not a number or zero.  The literal \<open>0.7\<close>
  is the double \<open>3152519739159347 * 2 ^ -52\<close>.
\<close>

datatype number = NaN | PlusInfinity | MinusInfinity | Num int int

fun truthy :: "number \<Rightarrow> bool" where
  "truthy NaN = False"
| "truthy (Num m e) = (m \<noteq> 0)"
| "truthy x = True"

definition default_temperature :: number where
  "default_temperature = Num 3152519739159347 (- 52)"

text \<open>
  The parameters of one request.  The temperature is
  \<open>parseFloat(temperature) || 0.7\<close>; it is left out for the o-series and GPT-5
  models, which take the reasoning effort instead.
\<close>

record request =
  req_model :: string
  req_messages :: "message list"
  req_temperature :: "number option"
  req_reasoning_effort :: "string option"
  req_tools :: "tool_def list option"

text \<open>
  The provider: what the \<open>k\<close>-th call of \<open>client.chat.completions.create\<close> does
  with its parameters, with the cancellation signal in effect: it throws, or returns a
  stream.  \<open>parseArgs\<close> is \<open>JSON.parse\<close> on a tool call's argument string, and
  \<open>parseFloat\<close> the platform's function on the caller's temperature (the empty string
  for an absent one).
\<close>

record world =
  provider :: "nat \<Rightarrow> request \<Rightarrow> err + stream"
  parseArgs :: "string \<Rightarrow> args option"
  parseFloat :: "string \<Rightarrow> number"

text \<open>
  The options of \<open>streamOpenAI\<close>.  \<open>o_messages\<close> is the reference of the caller's
  array; the callbacks and the tool executor act on the caller's state \<open>'s\<close>; the
  executor returns its result on the right, or on the left the message of the error it
  throws.
\<close>

datatype callback =
    OnChunk string
  | OnToolCall string args
  | ToolExecutor string args
  | OnToolResult string string
  | OnDone string
  | OnError err

record 's adapter_opts =
  o_provider :: "string option"
  o_messages :: nat
  o_model :: string
  o_temperature :: string
  o_tools :: "tool_def list"
  o_toolExecutor :: "(string \<Rightarrow> args \<Rightarrow> 's \<Rightarrow> (string + string) \<times> 's) option"
  o_apiKey :: string
  o_reasoningEffort :: string
  o_onChunk :: "string \<Rightarrow> 's \<Rightarrow> 's"
  o_onToolCall :: "(string \<Rightarrow> args \<Rightarrow> 's \<Rightarrow> 's) option"
  o_onToolResult :: "(string \<Rightarrow> string \<Rightarrow> 's \<Rightarrow> 's) option"
  o_onDone :: "string \<Rightarrow> 's \<Rightarrow> 's"
  o_onError :: "err \<Rightarrow> 's \<Rightarrow> 's"

text \<open>
  The state of a run: the store of message arrays, addressed by position; the caller's
  state; and two logs kept for the properties, the requests sent to the provider and the
  calls of the caller's functions (the callbacks and the tool executor), in order.
\<close>

record 's astate =
  as_heap :: "message list list"
  as_requests :: "request list"
  as_calls :: "callback list"
  as_ext :: 's

definition push :: "nat \<Rightarrow> message \<Rightarrow> 's astate \<Rightarrow> 's astate" where
  "push r m st = st\<lparr>as_heap := (as_heap st)[r := as_heap st ! r @ [m]]\<rparr>"

definition onChunk :: "'s adapter_opts \<Rightarrow> string \<Rightarrow> 's astate \<Rightarrow> 's astate" where
  "onChunk opts delta st =
     st\<lparr>as_calls := as_calls st @ [OnChunk delta], as_ext := o_onChunk opts delta (as_ext st)\<rparr>"

definition onToolCall :: "'s adapter_opts \<Rightarrow> string \<Rightarrow> args \<Rightarrow> 's astate \<Rightarrow> 's astate" where
  "onToolCall opts name a st =
     (case o_onToolCall opts of
        None \<Rightarrow> st
      | Some f \<Rightarrow> st\<lparr>as_calls := as_calls st @ [OnToolCall name a],
                      as_ext := f name a (as_ext st)\<rparr>)"

definition onToolResult :: "'s adapter_opts \<Rightarrow> string \<Rightarrow> string \<Rightarrow> 's astate \<Rightarrow> 's astate" where
  "onToolResult opts name r st =
     (case o_onToolResult opts of
        None \<Rightarrow> st
      | Some f \<Rightarrow> st\<lparr>as_calls := as_calls st @ [OnToolResult name r],
                      as_ext := f name r (as_ext st)\<rparr>)"

definition onDone :: "'s adapter_opts \<Rightarrow> string \<Rightarrow> 's astate \<Rightarrow> 's astate" where
  "onDone opts fullText st =
     st\<lparr>as_calls := as_calls st @ [OnDone fullText], as_ext := o_onDone opts fullText (as_ext st)\<rparr>"

definition onError :: "'s adapter_opts \<Rightarrow> err \<Rightarrow> 's astate \<Rightarrow> 's astate" where
  "onError opts e st =
     st\<lparr>as_calls := as_calls st @ [OnError e], as_ext := o_onError opts e (as_ext st)\<rparr>"

definition is_o_series :: "string \<Rightarrow> bool" where
  "is_o_series model = (case model of c1 # c2 # rest \<Rightarrow> c1 = CHR ''o'' \<and> is_digit c2 | _ \<Rightarrow> False)"

definition is_gpt5 :: "string \<Rightarrow> bool" where
  "is_gpt5 model = startsWith model ''gpt-5''"

definition build_params :: "'s adapter_opts \<Rightarrow> world \<Rightarrow> message list \<Rightarrow> request" where
  "build_params opts w msgs =
     \<lparr>req_model = o_model opts,
      req_messages = msgs,
      req_temperature =
        (if \<not> is_o_series (o_model opts) \<and> \<not> is_gpt5 (o_model opts)
         then Some (if truthy (parseFloat w (o_temperature opts))
                    then parseFloat w (o_temperature opts) else default_temperature)
         else None),
      req_reasoning_effort =
        (if (is_o_series (o_model opts) \<or> is_gpt5 (o_model opts)) \<and> o_reasoningEffort opts \<noteq> []
         then Some (o_reasoningEffort opts) else None),
      req_tools =
        (if o_tools opts \<noteq> [] then Some (map (\<lambda>t. t\<lparr>td_mcpServer := None\<rparr>) (o_tools opts))
         else None)\<rparr>"

text \<open>
  \<open>toolCallsAcc\<close> is an object keyed by the tool call's index; \<open>Object.values\<close>
  lists it by ascending index.
\<close>

type_synonym tool_calls_acc = "(nat \<times> tool_call) list"

fun acc_put :: "nat \<Rightarrow> tool_call \<Rightarrow> tool_calls_acc \<Rightarrow> tool_calls_acc" where
  "acc_put idx v [] = [(idx, v)]"
| "acc_put idx v ((k, w) # kvs) = (if k = idx then (k, v) # kvs else (k, w) # acc_put idx v kvs)"

definition acc_delta :: "tool_calls_acc \<Rightarrow> tc_delta \<Rightarrow> tool_calls_acc" where
  "acc_delta acc tc =
     (let cur = (case map_of acc (tcd_index tc) of
                   Some t \<Rightarrow> t
                 | None \<Rightarrow> \<lparr>tc_id = [], tc_name = [], tc_args = []\<rparr>)
      in acc_put (tcd_index tc)
           \<lparr>tc_id = tc_id cur @ tcd_id tc, tc_name = tc_name cur @ tcd_name tc,
             tc_args = tc_args cur @ tcd_arguments tc\<rparr> acc)"

definition object_values :: "tool_calls_acc \<Rightarrow> tool_call list" where
  "object_values acc = map snd (sort_key fst acc)"

text \<open>
  The variables of one round while the stream is consumed, and the body of the
  \<open>for await\<close> loop.
\<close>

record 's round_state =
  rs_fullResponse :: string
  rs_chunkText :: string
  rs_finishReason :: string
  rs_toolCallsAcc :: tool_calls_acc
  rs_st :: "'s astate"

definition on_chunk :: "'s adapter_opts \<Rightarrow> 's round_state \<Rightarrow> chunk \<Rightarrow> 's round_state" where
  "on_chunk opts rs ch =
     (case ch of
        NoChoice \<Rightarrow> rs
      | Choice textDelta tcDeltas finish_reason \<Rightarrow>
          (let rs1 = (if textDelta \<noteq> []
                      then rs\<lparr>rs_chunkText := rs_chunkText rs @ textDelta,
                              rs_fullResponse := rs_fullResponse rs @ textDelta,
                              rs_st := onChunk opts textDelta (rs_st rs)\<rparr>
                      else rs);
               rs2 = rs1\<lparr>rs_toolCallsAcc := foldl acc_delta (rs_toolCallsAcc rs1) tcDeltas\<rparr>
           in if finish_reason \<noteq> [] then rs2\<lparr>rs_finishReason := finish_reason\<rparr> else rs2))"

text \<open>
  The body of the loop over the tool calls of a round.
\<close>

definition run_tool ::
  "'s adapter_opts \<Rightarrow> world \<Rightarrow> (string \<Rightarrow> args \<Rightarrow> 's \<Rightarrow> (string + string) \<times> 's) \<Rightarrow> nat
     \<Rightarrow> 's astate \<Rightarrow> tool_call \<Rightarrow> 's astate" where
  "run_tool opts w exec copy st tc =
     (let parsedArgs = (case parseArgs w (if tc_args tc = [] then ''{}'' else tc_args tc) of
                          Some a \<Rightarrow> a
                        | None \<Rightarrow> []);
          st1 = onToolCall opts (tc_name tc) parsedArgs st;
          r = exec (tc_name tc) parsedArgs (as_ext st1);
          resultText = (case fst r of Inr t \<Rightarrow> t | Inl m \<Rightarrow> ''Error: '' @ m);
          st2 = st1\<lparr>as_calls := as_calls st1 @ [ToolExecutor (tc_name tc) parsedArgs],
                    as_ext := snd r\<rparr>;
          st3 = onToolResult opts (tc_name tc) resultText st2
      in push copy (ToolMsg (tc_id tc) resultText) st3)"

text \<open>
  One round either ends the call (by \<open>return\<close> after \<open>onDone\<close>, or by a throw that
  carries the response text so far to the \<open>catch\<close>) or continues with the next round.
\<close>

datatype 's outcome = Returned "'s astate" | Threw err string "'s astate"

datatype 's step = Stop "'s outcome" | Continue string "'s astate"

definition one_round :: "'s adapter_opts \<Rightarrow> world \<Rightarrow> nat \<Rightarrow> string \<Rightarrow> 's astate \<Rightarrow> 's step" where
  "one_round opts w copy fullResponse st =
     (let params = build_params opts w (as_heap st ! copy);
          st1 = st\<lparr>as_requests := as_requests st @ [params]\<rparr>
      in case provider w (length (as_requests st)) params of
           Inl e \<Rightarrow> Stop (Threw e fullResponse st1)
         | Inr s \<Rightarrow>
             (let rs = foldl (on_chunk opts)
                         \<lparr>rs_fullResponse = fullResponse, rs_chunkText = [], rs_finishReason = [],
                           rs_toolCallsAcc = [], rs_st = st1\<rparr> (st_chunks s)
              in case st_raised s of
                   Some e \<Rightarrow> Stop (Threw e (rs_fullResponse rs) (rs_st rs))
                 | None \<Rightarrow>
                     (case o_toolExecutor opts of
                        None \<Rightarrow> Stop (Returned (onDone opts (rs_fullResponse rs) (rs_st rs)))
                      | Some exec \<Rightarrow>
                          if rs_finishReason rs = ''tool_calls'' \<and> o_tools opts \<noteq> [] then
                            (let toolCallList = object_values (rs_toolCallsAcc rs);
                                 st2 = push copy
                                   (AssistantToolCalls
                                      (if rs_chunkText rs \<noteq> [] then Some (rs_chunkText rs) else None)
                                      toolCallList) (rs_st rs)
                             in Continue (rs_fullResponse rs)
                                  (foldl (run_tool opts w exec copy) st2 toolCallList))
                          else Stop (Returned (onDone opts (rs_fullResponse rs) (rs_st rs))))))"

text \<open>
  The loop \<open>for (let round = 0; round < 10; round++)\<close>, and \<open>onDone\<close> after it.
\<close>

function rounds ::
  "'s adapter_opts \<Rightarrow> world \<Rightarrow> nat \<Rightarrow> nat \<Rightarrow> string \<Rightarrow> 's astate \<Rightarrow> 's outcome" where
  "rounds opts w copy round fullResponse st =
     (if round < 10 then
        (case one_round opts w copy fullResponse st of
           Stop out \<Rightarrow> out
         | Continue fullResponse' st' \<Rightarrow> rounds opts w copy (Suc round) fullResponse' st')
      else Returned (onDone opts fullResponse st))"
  by pat_completeness auto

termination
  by (relation "measure (\<lambda>(opts, w, copy, round, fullResponse, st). 10 - round)") auto

text \<open>
  \<open>streamOpenAI\<close>: the client is made and the array copied before the \<open>try\<close>, so a
  missing key rejects the call; everything after is caught.
\<close>

definition streamOpenAI ::
  "'s adapter_opts \<Rightarrow> world \<Rightarrow> 's astate \<Rightarrow> err option \<times> 's astate" where
  "streamOpenAI opts w st =
     (if o_apiKey opts = [] then
        (Some (Err ''Error''
           (''No OpenAI API key set. Add yours in Settings '' @ arrow @ '' Model '' @ arrow @
            '' OpenAI API Key.'')), st)
      else
        (let copy = length (as_heap st);
             st0 = st\<lparr>as_heap := as_heap st @ [as_heap st ! o_messages opts]\<rparr>
         in case rounds opts w copy 0 [] st0 of
              Returned st' \<Rightarrow> (None, st')
            | Threw e fullResponse st' \<Rightarrow>
                if \<not> is_abort e then (None, onError opts e st')
                else (None, onDone opts fullResponse st')))"

definition streamChat :: "'s adapter_opts \<Rightarrow> world \<Rightarrow> 's astate \<Rightarrow> err option \<times> 's astate" where
  "streamChat opts w st =
     (let p = (case o_provider opts of None \<Rightarrow> ''openai'' | Some p \<Rightarrow> p)
      in if p = ''openai'' then streamOpenAI opts w st
         else (None, onError opts (Err ''Error'' (''Unknown provider: '' @ p)) st))"

fun out_state :: "'s outcome \<Rightarrow> 's astate" where
  "out_state (Returned st) = st"
| "out_state (Threw e f st) = st"

fun step_state :: "'s step \<Rightarrow> 's astate" where
  "step_state (Stop out) = out_state out"
| "step_state (Continue f st) = st"

text \<open>
  The arrays at the first \<open>n\<close> positions of the store are as before, and no array was
  allocated.
\<close>

definition heap_kept :: "nat \<Rightarrow> 's astate \<Rightarrow> 's astate \<Rightarrow> bool" where
  "heap_kept n st st' =
     (take n (as_heap st') = take n (as_heap st) \<and> length (as_heap st') = length (as_heap st))"












section \<open>The chat route, streaming part (\<open>POST /api/ai/chat\<close>, src/unnamed/part_006)\<close>


















section \<open>Example states\<close>

text \<open>
  The empty database; a user with 500 stored facts; the database after one
  \<open>memory_save\<close>; a conversation whose first two messages were sent within one
  second; and a user whose OpenAI key is \<open>s\<close>.
\<close>

definition empty_db :: database where
  "empty_db = \<lparr>db_conversations = [], db_messages = [], db_messages_seq = 0,
     db_settings = Map.empty, db_memory = [], db_memory_seq = 0, db_mcp_servers = []\<rparr>"

definition db500 :: database where
  "db500 = empty_db\<lparr>db_memory :=
       map (\<lambda>i. \<lparr>mem_id = Suc i, mem_user_id = 1, mem_content = ''fact'',
                  mem_created_at = 5, mem_updated_at = 5\<rparr>) [0..<500],
     db_memory_seq := 500\<rparr>"

definition berlin_db :: database where
  "berlin_db = snd (memory_save 7 1 [(''fact'', ''Lives in Berlin'')] empty_db)"

definition tie_db :: database where
  "tie_db = empty_db\<lparr>
     db_conversations := [\<lparr>conv_id = 1, conv_user_id = 1, conv_title = ''New Chat'',
                           conv_created_at = 100, conv_updated_at = 103\<rparr>],
     db_messages :=
       [\<lparr>msg_id = 1, msg_conversation_id = 1, msg_role = ''user'', msg_content = ''first'',
          msg_created_at = 100\<rparr>,
        \<lparr>msg_id = 2, msg_conversation_id = 1, msg_role = ''user'', msg_content = ''second'',
          msg_created_at = 100\<rparr>,
        \<lparr>msg_id = 3, msg_conversation_id = 1, msg_role = ''assistant'',
          msg_content = ''reply to first'', msg_created_at = 102\<rparr>,
        \<lparr>msg_id = 4, msg_conversation_id = 1, msg_role = ''assistant'',
          msg_content = ''reply to second'', msg_created_at = 103\<rparr>],
     db_messages_seq := 4\<rparr>"

definition db_key :: "string \<Rightarrow> database" where
  "db_key s = \<lparr>db_conversations = [], db_messages = [], db_messages_seq = 0,
     db_settings = [(1, ''openai_api_key'') \<mapsto> s, (1, ''model'') \<mapsto> ''gpt-5''],
     db_memory = [], db_memory_seq = 0, db_mcp_servers = []\<rparr>"

text \<open>
  A platform whose URL parser knows a few URLs (it returns an IPv6 literal in brackets,
  as \<open>new URL\<close> does) and that answers every request with one text block; two
  enabled servers of user 1 that both list the tool \<open>search\<close>, the second settling
  first; a provider that ends every round with a tool call, one that fails in its third
  stream, and one whose stream is cancelled after the text \<open>Hel\<close>; a caller whose
  functions write down their calls; and a chat request on a conversation that holds the
  user's message.  In the examples \<open>toLowerCase\<close> folds the ASCII letters and
  \<open>parseFloat\<close> finds no number.
\<close>

definition example_urls :: "(string \<times> url) list" where
  "example_urls =
     [(''https://a.example/mcp'', \<lparr>url_protocol = ''https:'', url_hostname = ''a.example''\<rparr>),
      (''https://b.example/mcp'', \<lparr>url_protocol = ''https:'', url_hostname = ''b.example''\<rparr>),
      (''http://127.0.0.1/x'', \<lparr>url_protocol = ''http:'', url_hostname = ''127.0.0.1''\<rparr>),
      (''http://192.168.1.5/'', \<lparr>url_protocol = ''http:'', url_hostname = ''192.168.1.5''\<rparr>),
      (''http://localhost/'', \<lparr>url_protocol = ''http:'', url_hostname = ''localhost''\<rparr>),
      (''http://[::1]/mcp'', \<lparr>url_protocol = ''http:'', url_hostname = ''[::1]''\<rparr>),
      (''http://[fd00::1]/mcp'', \<lparr>url_protocol = ''http:'', url_hostname = ''[fd00::1]''\<rparr>),
      (''http://[fe80::1]/mcp'', \<lparr>url_protocol = ''http:'', url_hostname = ''[fe80::1]''\<rparr>),
      (''ftp://files.example/'', \<lparr>url_protocol = ''ftp:'', url_hostname = ''files.example''\<rparr>)]"

definition ok_response :: http_response where
  "ok_response =
     \<lparr>rs_ok = True, rs_status = ''200'', rs_content_type = ''application/json'',
      rs_json = Inr \<lparr>rpc_error = None,
                     rpc_result = Some \<lparr>res_tools = [], res_content = Some [text_block ''ok''],
                                         res_json = ''{}''\<rparr>\<rparr>,
      rs_lines = []\<rparr>"

definition example_platform :: platform where
  "example_platform =
     \<lparr>parseURL = map_of example_urls, fetch = (\<lambda>rq. Fetched ok_response),
      parseRpc = (\<lambda>s. None), parseAuth = (\<lambda>s. None)\<rparr>"

definition example_services :: services where
  "example_services =
     \<lparr>toLowerCase = lower,
      tavily_search = (\<lambda>q m. ''No results found.''),
      images_generate = (\<lambda>p s q. ''Image generation returned no data.'')\<rparr>"

definition net0 :: net where
  "net0 = \<lparr>net_reqId = 1, net_log = []\<rparr>"

definition server_a :: mcp_server_row where
  "server_a = \<lparr>srv_id = 1, srv_user_id = 1, srv_name = ''A'', srv_url = ''https://a.example/mcp'',
     srv_enabled = True, srv_created_at = 10, srv_auth_type = ''none'', srv_auth_data = []\<rparr>"

definition server_b :: mcp_server_row where
  "server_b = \<lparr>srv_id = 2, srv_user_id = 1, srv_name = ''B'', srv_url = ''https://b.example/mcp'',
     srv_enabled = True, srv_created_at = 20, srv_auth_type = ''none'', srv_auth_data = []\<rparr>"

definition two_servers_db :: database where
  "two_servers_db = empty_db\<lparr>db_mcp_servers := [server_a, server_b]\<rparr>"

definition search_tool :: mcp_tool where
  "search_tool = \<lparr>tool_name = ''search'', tool_description = ''Search'', tool_inputSchema = []\<rparr>"

definition chat0 :: chat_state where
  "chat0 = \<lparr>cs_db = two_servers_db, cs_net = net0, cs_sse = [], cs_ended = False,
     cs_fullResponse = [], cs_extracting = False\<rparr>"

definition ctx1 :: tool_context where
  "ctx1 = \<lparr>ctx_userId = 1, ctx_tavilyKey = [], ctx_apiKey = ''sk-test''\<rparr>"

definition loop_world :: world where
  "loop_world =
     \<lparr>provider = (\<lambda>k rq. Inr \<lparr>st_chunks =
          [Choice ''a'' [\<lparr>tcd_index = 0, tcd_id = ''call'', tcd_name = ''memory_get'',
                          tcd_arguments = ''{}''\<rparr>] ''tool_calls''],
          st_raised = None\<rparr>),
      parseArgs = (\<lambda>s. Some []), parseFloat = (\<lambda>s. NaN)\<rparr>"




definition loop_opts :: "unit adapter_opts" where
  "loop_opts =
     \<lparr>o_provider = None, o_messages = 0, o_model = ''gpt-5-mini'', o_temperature = [],
      o_tools = BUILTIN_TOOLS, o_toolExecutor = Some (\<lambda>name a s. (Inr ''ok'', s)),
      o_apiKey = ''sk-test'', o_reasoningEffort = ''low'',
      o_onChunk = (\<lambda>d s. s), o_onToolCall = Some (\<lambda>n a s. s),
      o_onToolResult = Some (\<lambda>n r s. s), o_onDone = (\<lambda>f s. s), o_onError = (\<lambda>e s. s)\<rparr>"

definition adapter0 :: "unit astate" where
  "adapter0 = \<lparr>as_heap = [[Msg ''user'' ''hi'']], as_requests = [], as_calls = [], as_ext = ()\<rparr>"

definition settle_b_first :: "nat list" where
  "settle_b_first = [1, 0]"

definition settle_in_order :: "nat list" where
  "settle_in_order = [0, 1]"





section \<open>Properties of the memory store\<close>

text \<open>
  The \<open>memory_save\<close> tool deduplicates: saving a fact that differs from an already
  saved one only in letter case or surrounding white space leaves the table as it is.
\<close>

lemma lower_length: "length (lower s) = length s"
  by (simp add: lower_def)

lemma memory_save_dedup:
  assumes "trim (arg a ''fact'') \<noteq> []"
    and "lower (trim (arg b ''fact'')) = lower (trim (arg a ''fact''))"
  shows "snd (memory_save n2 u b (snd (memory_save n1 u a db))) = snd (memory_save n1 u a db)"
proof -
  let ?fa = "trim (arg a ''fact'')" and ?fb = "trim (arg b ''fact'')"
  let ?db1 = "snd (memory_save n1 u a db)"
  have nb: "?fb \<noteq> []"
    using assms lower_length [of ?fa] lower_length [of ?fb] by auto
  have "memory_dupe ?db1 u ?fb \<noteq> None"
  proof (cases "memory_dupe db u ?fa")
    case None
    then have "db_memory ?db1 = db_memory db @
        [\<lparr>mem_id = Suc (db_memory_seq db), mem_user_id = u, mem_content = ?fa,
          mem_created_at = n1, mem_updated_at = n1\<rparr>]"
      using assms(1) by (simp add: memory_save_def insert_memory_def Let_def)
    then have "\<lparr>mem_id = Suc (db_memory_seq db), mem_user_id = u, mem_content = ?fa,
          mem_created_at = n1, mem_updated_at = n1\<rparr> \<in> set (db_memory ?db1)"
      by simp
    then show ?thesis
      using assms(2) unfolding memory_dupe_def find_None_iff by force
  next
    case (Some r)
    then have "?db1 = db" using assms(1) by (simp add: memory_save_def Let_def)
    then show ?thesis using Some assms(2) by (auto simp: memory_dupe_def find_None_iff)
  qed
  then show ?thesis using nb by (auto simp: memory_save_def Let_def)
qed

text \<open>
  Claim C7: inserting the same content twice (compared case-insensitively) leaves
  exactly one stored row.  The \<open>memory_save\<close> tool does so (lemma
  \<open>memory_save_dedup\<close>); the route \<open>POST /api/memory\<close> does not look for a
  duplicate: the same content posted twice is stored in two rows.
\<close>

theorem post_memory_twice_stores_two_rows:
  "map mem_content (db_memory (snd (post_memory 8 1 (Some ''Lives in Berlin'')
      (snd (post_memory 7 1 (Some ''Lives in Berlin'') empty_db)))))
   = [''Lives in Berlin'', ''Lives in Berlin'']"
  by (simp add: post_memory_def empty_db_def user_memory_def insert_memory_def trim_def
      white_space_def str_length_def)

text \<open>
  The route \<open>POST /api/memory\<close> keeps the cap: it never takes a user from at most
  500 facts to more.
\<close>

lemma post_memory_keeps_cap:
  assumes "length (user_memory db userId) \<le> 500"
  shows "length (user_memory (snd (post_memory now userId body db)) userId) \<le> 500"
  using assms
  by (auto simp: post_memory_def user_memory_def insert_memory_def Let_def split: option.splits)

lemma db500_count: "length (user_memory db500 1) = 500"
  by (simp add: db500_def user_memory_def empty_db_def)

lemma db500_no_dupe: "memory_dupe db500 1 ''Likes tea'' = None"
  by (simp add: db500_def memory_dupe_def empty_db_def find_None_iff lower_def lower_char_def)

text \<open>
  Claim C6: an insert attempted when the user holds 500 facts is rejected.  Only the
  route \<open>POST /api/memory\<close> counts the rows; for a user with 500 facts the
  \<open>memory_save\<close> tool and the auto-memory insertion both store fact number 501.
\<close>

theorem memory_save_exceeds_cap:
  "length (user_memory db500 1) = 500 \<and>
   length (user_memory (snd (memory_save 9 1 [(''fact'', ''Likes tea'')] db500)) 1) = 501 \<and>
   length (user_memory (auto_memory_insert 9 1 [''Likes tea''] db500) 1) = 501 \<and>
   fst (post_memory 9 1 (Some ''Likes tea'') db500) =
     Status 400 ''Memory limit reached (500 facts max). Delete some facts first.''"
proof -
  have t: "trim ''Likes tea'' = ''Likes tea''"
    by (simp add: trim_def white_space_def)
  have a: "length (user_memory (snd (memory_save 9 1 [(''fact'', ''Likes tea'')] db500)) 1) = 501"
    using db500_no_dupe db500_count
    by (simp add: memory_save_def arg_def t user_memory_def insert_memory_def)
  have b: "length (user_memory (auto_memory_insert 9 1 [''Likes tea''] db500) 1) = 501"
    using db500_count by (simp add: auto_memory_insert_def user_memory_def insert_memory_def)
  have c: "fst (post_memory 9 1 (Some ''Likes tea'') db500) =
     Status 400 ''Memory limit reached (500 facts max). Delete some facts first.''"
    using db500_count by (simp add: post_memory_def t str_length_def)
  show ?thesis using db500_count a b c by simp
qed

text \<open>
  Claim C5: a fact yielded by the auto-memory extraction whose content already exists
  (case-insensitively) adds no row, as with \<open>memory_save\<close>.  The auto-memory
  continuation inserts every yielded fact unconditionally: with \<open>Lives in Berlin\<close>
  stored, the yielded fact \<open>lives in berlin\<close> becomes a second row, where
  \<open>memory_save\<close> with the same fact changes nothing.
\<close>

theorem auto_memory_inserts_duplicate:
  "map mem_content (user_memory berlin_db 1) = [''Lives in Berlin''] \<and>
   map mem_content (user_memory (auto_memory_insert 9 1 [''lives in berlin''] berlin_db) 1)
     = [''Lives in Berlin'', ''lives in berlin''] \<and>
   snd (memory_save 9 1 [(''fact'', ''lives in berlin'')] berlin_db) = berlin_db"
  by (simp add: berlin_db_def memory_save_def arg_def trim_def white_space_def memory_dupe_def
      empty_db_def insert_memory_def auto_memory_insert_def user_memory_def lower_def lower_char_def)

section \<open>Properties of the message edit\<close>

text \<open>
  When no two messages of the conversation share a second, so that the order of
  \<open>created_at\<close> is the order of creation, the edit deletes the edited message and the
  later ones and keeps every other message.
\<close>

lemma edit_without_ties:
  assumes "find (\<lambda>c. conv_id c = convId \<and> conv_user_id c = userId) (db_conversations db) = Some conv"
    and "find (\<lambda>m. msg_id m = msgId \<and> msg_conversation_id m = conv_id conv) (db_messages db) =
           Some msg"
    and "msg_role msg = ''user''" and "trim content \<noteq> []"
    and "\<And>m. m \<in> set (db_messages db) \<Longrightarrow> msg_conversation_id m = conv_id conv \<Longrightarrow>
           (msg_created_at msg \<le> msg_created_at m) = (msg_id msg \<le> msg_id m)"
  shows "db_messages (snd (patch_message now userId convId msgId (Some content) db)) =
           filter (\<lambda>m. \<not> (msg_conversation_id m = conv_id conv \<and> msg_id msg \<le> msg_id m))
             (db_messages db)"
proof -
  have "filter (\<lambda>m. \<not> (msg_conversation_id m = conv_id conv \<and>
                        msg_created_at msg \<le> msg_created_at m)) (db_messages db) =
        filter (\<lambda>m. \<not> (msg_conversation_id m = conv_id conv \<and> msg_id msg \<le> msg_id m))
          (db_messages db)"
    using assms(5) by (intro filter_cong) auto
  then show ?thesis
    using assms(1-4) by (simp add: patch_message_def Let_def touch_conversation_def)
qed

text \<open>
  Claim C8: the edit deletes the edited message and every later message of the
  conversation, and keeps every earlier one.  The deletion selects by
  \<open>created_at >= msg.created_at\<close>, a clock of whole seconds: message 1, created
  before the edited message 2 but within the same second, is deleted with it, and the
  conversation is left empty.
\<close>

theorem edit_deletes_earlier_same_second:
  "map msg_id (db_messages tie_db) = [1, 2, 3, 4] \<and>
   fst (patch_message 200 1 1 2 (Some ''second, edited'') tie_db) = Json (EditOk 100) \<and>
   map msg_id (db_messages (snd (patch_message 200 1 1 2 (Some ''second, edited'') tie_db))) = []"
  by (simp add: patch_message_def tie_db_def empty_db_def touch_conversation_def trim_def
      white_space_def)

section \<open>Properties of the settings responses\<close>

lemma DEFAULTS_no_keys:
  "DEFAULTS ''openai_api_key'' = None" "DEFAULTS ''tavily_api_key'' = None"
  by (simp_all add: DEFAULTS_def)

lemma maskSettings_keys_absent:
  "maskSettings m ''openai_api_key'' = None" "maskSettings m ''tavily_api_key'' = None"
  by (simp_all add: maskSettings_def Let_def)

lemma maskSettings_flags:
  "maskSettings m ''openai_api_key_set'' = Some (Bool (key_set (m ''openai_api_key'')))"
  "maskSettings m ''tavily_api_key_set'' = Some (Bool (key_set (m ''tavily_api_key'')))"
  by (simp_all add: maskSettings_def Let_def)

lemma maskSettings_cong:
  assumes "\<And>k. k = ''openai_api_key'' \<or> k = ''tavily_api_key'' \<or> m1 k = m2 k"
    and "key_set (m1 ''openai_api_key'') = key_set (m2 ''openai_api_key'')"
    and "key_set (m1 ''tavily_api_key'') = key_set (m2 ''tavily_api_key'')"
  shows "maskSettings m1 = maskSettings m2"
proof
  fix k
  show "maskSettings m1 k = maskSettings m2 k"
    using assms(1) [of k] assms(2,3) by (auto simp: maskSettings_def Let_def)
qed

lemma merged_key:
  "(DEFAULTS ++ getUserSettings db u) ''openai_api_key'' = db_settings db (u, ''openai_api_key'')"
  "(DEFAULTS ++ getUserSettings db u) ''tavily_api_key'' = db_settings db (u, ''tavily_api_key'')"
  by (simp_all add: map_add_def getUserSettings_def DEFAULTS_no_keys split: option.splits)

lemma merged_same:
  assumes "same_but_keys u db1 db2"
  shows "maskSettings (DEFAULTS ++ getUserSettings db1 u) =
         maskSettings (DEFAULTS ++ getUserSettings db2 u)"
proof (rule maskSettings_cong)
  fix k
  from assms have "k = ''openai_api_key'' \<or> k = ''tavily_api_key'' \<or>
      db_settings db1 (u, k) = db_settings db2 (u, k)"
    unfolding same_but_keys_def by blast
  then show "k = ''openai_api_key'' \<or> k = ''tavily_api_key'' \<or>
        (DEFAULTS ++ getUserSettings db1 u) k = (DEFAULTS ++ getUserSettings db2 u) k"
    by (auto simp: getUserSettings_def map_add_def)
next
  show "key_set ((DEFAULTS ++ getUserSettings db1 u) ''openai_api_key'') =
        key_set ((DEFAULTS ++ getUserSettings db2 u) ''openai_api_key'')"
    using assms unfolding merged_key same_but_keys_def by blast
next
  show "key_set ((DEFAULTS ++ getUserSettings db1 u) ''tavily_api_key'') =
        key_set ((DEFAULTS ++ getUserSettings db2 u) ''tavily_api_key'')"
    using assms unfolding merged_key same_but_keys_def by blast
qed

lemma setSetting_same:
  assumes "same_but_keys u db1 db2"
  shows "same_but_keys u (setSetting u k v db1) (setSetting u k v db2)"
proof -
  have a: "\<And>j. j = ''openai_api_key'' \<or> j = ''tavily_api_key'' \<or>
      db_settings db1 (u, j) = db_settings db2 (u, j)"
    using assms unfolding same_but_keys_def by blast
  have "\<And>j. j = ''openai_api_key'' \<or> j = ''tavily_api_key'' \<or>
      db_settings (setSetting u k v db1) (u, j) = db_settings (setSetting u k v db2) (u, j)"
    using a by (simp add: setSetting_def)
  moreover have "key_set (db_settings (setSetting u k v db1) (u, ''openai_api_key'')) =
      key_set (db_settings (setSetting u k v db2) (u, ''openai_api_key''))"
    using assms by (simp add: same_but_keys_def setSetting_def)
  moreover have "key_set (db_settings (setSetting u k v db1) (u, ''tavily_api_key'')) =
      key_set (db_settings (setSetting u k v db2) (u, ''tavily_api_key''))"
    using assms by (simp add: same_but_keys_def setSetting_def)
  ultimately show ?thesis
    unfolding same_but_keys_def by blast
qed

lemma setSetting_key_same:
  assumes "same_but_keys u db1 db2"
    and "k = ''openai_api_key'' \<or> k = ''tavily_api_key''"
    and "key_set (Some v1) = key_set (Some v2)"
  shows "same_but_keys u (setSetting u k v1 db1) (setSetting u k v2 db2)"
proof -
  have a: "\<And>j. j = ''openai_api_key'' \<or> j = ''tavily_api_key'' \<or>
      db_settings db1 (u, j) = db_settings db2 (u, j)"
    using assms(1) unfolding same_but_keys_def by blast
  have "\<And>j. j = ''openai_api_key'' \<or> j = ''tavily_api_key'' \<or>
      db_settings (setSetting u k v1 db1) (u, j) = db_settings (setSetting u k v2 db2) (u, j)"
    using a assms(2) by (auto simp: setSetting_def)
  moreover have "key_set (db_settings (setSetting u k v1 db1) (u, ''openai_api_key'')) =
      key_set (db_settings (setSetting u k v2 db2) (u, ''openai_api_key''))"
    using assms by (auto simp: same_but_keys_def setSetting_def)
  moreover have "key_set (db_settings (setSetting u k v1 db1) (u, ''tavily_api_key'')) =
      key_set (db_settings (setSetting u k v2 db2) (u, ''tavily_api_key''))"
    using assms by (auto simp: same_but_keys_def setSetting_def)
  ultimately show ?thesis
    unfolding same_but_keys_def by blast
qed

lemma key_set_value:
  "key_set (Some (case v of None \<Rightarrow> [] | Some s \<Rightarrow> s)) = key_set v"
  by (cases v) (simp_all add: key_set_def)

lemma apply_update_same:
  assumes "same_but_keys u db1 db2"
    and "fst a = fst b"
    and "snd a = snd b \<or>
         ((fst a = ''openai_api_key'' \<or> fst a = ''tavily_api_key'') \<and>
          key_set (snd a) = key_set (snd b))"
  shows "same_but_keys u (apply_update u db1 a) (apply_update u db2 b)"
proof (cases "snd a = snd b")
  case True
  then have "a = b" using assms(2) by (simp add: prod_eq_iff)
  then show ?thesis
    using assms(1) setSetting_same [OF assms(1)]
    by (simp add: apply_update_def Let_def split: option.splits)
next
  case False
  then have k: "fst a = ''openai_api_key'' \<or> fst a = ''tavily_api_key''"
    and v: "key_set (snd a) = key_set (snd b)"
    using assms(3) by blast+
  have al: "fst a \<in> set ALLOWED_KEYS" using k by (auto simp: ALLOWED_KEYS_def)
  have mx: "MAX_LENGTHS (fst a) = None" using k by (auto simp: MAX_LENGTHS_def)
  have "key_set (Some (case snd a of None \<Rightarrow> [] | Some s \<Rightarrow> s)) =
        key_set (Some (case snd b of None \<Rightarrow> [] | Some s \<Rightarrow> s))"
    using v by (simp only: key_set_value)
  then have "same_but_keys u
      (setSetting u (fst a) (case snd a of None \<Rightarrow> [] | Some s \<Rightarrow> s) db1)
      (setSetting u (fst a) (case snd b of None \<Rightarrow> [] | Some s \<Rightarrow> s) db2)"
    by (rule setSetting_key_same [OF assms(1) k])
  then show ?thesis
    using al mx assms(2) by (simp add: apply_update_def Let_def)
qed

lemma foldl_update_same:
  assumes "same_key_updates ups1 ups2"
  shows "same_but_keys u db1 db2 \<Longrightarrow>
         same_but_keys u (foldl (apply_update u) db1 ups1) (foldl (apply_update u) db2 ups2)"
  using assms unfolding same_key_updates_def
proof (induction ups1 ups2 arbitrary: db1 db2 rule: list_all2_induct)
  case Nil
  then show ?case by simp
next
  case (Cons a as b bs)
  have "same_but_keys u (apply_update u db1 a) (apply_update u db2 b)"
    using apply_update_same [OF Cons.prems] Cons.hyps(1) by blast
  then show ?case using Cons.IH by simp
qed

lemma get_settings_fields:
  "get_settings u db k =
     (if k = ''openai_api_key'' \<or> k = ''tavily_api_key'' then None
      else if k = ''openai_api_key_set''
        then Some (Bool (key_set (db_settings db (u, ''openai_api_key''))))
      else if k = ''tavily_api_key_set''
        then Some (Bool (key_set (db_settings db (u, ''tavily_api_key''))))
      else map_option Str ((DEFAULTS ++ getUserSettings db u) k))"
  by (simp add: get_settings_def maskSettings_def Let_def merged_key)

text \<open>
  Claim C9: a settings response, of a read or of an update, never holds an API key.
  The response of an update is the response a read gives on the database the update
  leaves.  In a response the fields \<open>openai_api_key\<close> and \<open>tavily_api_key\<close> are
  absent, the flags \<open>openai_api_key_set\<close> and \<open>tavily_api_key_set\<close> say whether
  each key is set, and every other field is a stored or default setting other than the
  keys.  Two databases that differ only in the values of keys that are set give the same
  responses, also to updates that differ only in the key values they store.
\<close>

theorem settings_never_reveal_keys:
  assumes "same_but_keys u db1 db2" and "same_key_updates ups1 ups2"
  shows "get_settings u db1 = get_settings u db2 \<and>
         fst (patch_settings u (Some ups1) db1) = fst (patch_settings u (Some ups2) db2) \<and>
         fst (patch_settings u (Some ups1) db1) =
           Json (get_settings u (snd (patch_settings u (Some ups1) db1))) \<and>
         patch_settings u None db1 = (Status 400 ''Invalid body'', db1) \<and>
         (\<forall>k. get_settings u db1 k =
            (if k = ''openai_api_key'' \<or> k = ''tavily_api_key'' then None
             else if k = ''openai_api_key_set''
               then Some (Bool (key_set (db_settings db1 (u, ''openai_api_key''))))
             else if k = ''tavily_api_key_set''
               then Some (Bool (key_set (db_settings db1 (u, ''tavily_api_key''))))
             else map_option Str ((DEFAULTS ++ getUserSettings db1 u) k)))"
proof -
  have g: "get_settings u db1 = get_settings u db2"
    using merged_same [OF assms(1)] by (simp add: get_settings_def)
  have p: "fst (patch_settings u (Some ups1) db1) = fst (patch_settings u (Some ups2) db2)"
    using merged_same [OF foldl_update_same [OF assms(2) assms(1)]]
    by (simp add: patch_settings_def Let_def)
  have r: "fst (patch_settings u (Some ups1) db1) =
           Json (get_settings u (snd (patch_settings u (Some ups1) db1)))"
    by (simp add: patch_settings_def Let_def get_settings_def)
  have n: "patch_settings u None db1 = (Status 400 ''Invalid body'', db1)"
    by (simp add: patch_settings_def)
  have f: "\<forall>k. get_settings u db1 k =
            (if k = ''openai_api_key'' \<or> k = ''tavily_api_key'' then None
             else if k = ''openai_api_key_set''
               then Some (Bool (key_set (db_settings db1 (u, ''openai_api_key''))))
             else if k = ''tavily_api_key_set''
               then Some (Bool (key_set (db_settings db1 (u, ''tavily_api_key''))))
             else map_option Str ((DEFAULTS ++ getUserSettings db1 u) k))"
    using get_settings_fields [of u db1] by blast
  show ?thesis
    using g p r n f by (intro conjI)
qed

text \<open>
  Two databases that hold different OpenAI keys for user 1 give the same responses, to a
  read and to updates that store different Tavily keys; a read shows the flag and the
  model and holds no field \<open>openai_api_key\<close>.  A stored key that is a no-break space
  is not set.
\<close>

theorem settings_never_reveal_keys_witness:
  "same_but_keys 1 (db_key ''sk-alpha'') (db_key ''sk-beta-2'') \<and>
   same_key_updates [(''tavily_api_key'', Some ''tv-1''), (''model'', Some ''gpt-5-mini'')]
     [(''tavily_api_key'', Some ''tv-22''), (''model'', Some ''gpt-5-mini'')] \<and>
   get_settings 1 (db_key ''sk-alpha'') = get_settings 1 (db_key ''sk-beta-2'') \<and>
   fst (patch_settings 1
          (Some [(''tavily_api_key'', Some ''tv-1''), (''model'', Some ''gpt-5-mini'')])
          (db_key ''sk-alpha'')) =
     fst (patch_settings 1
          (Some [(''tavily_api_key'', Some ''tv-22''), (''model'', Some ''gpt-5-mini'')])
          (db_key ''sk-beta-2'')) \<and>
   get_settings 1 (db_key ''sk-alpha'') ''openai_api_key'' = None \<and>
   get_settings 1 (db_key ''sk-alpha'') ''openai_api_key_set'' = Some (Bool True) \<and>
   get_settings 1 (db_key ''sk-alpha'') ''model'' = Some (Str ''gpt-5'') \<and>
   get_settings 1 (db_key [CHR 0xC2, CHR 0xA0]) ''openai_api_key_set'' = Some (Bool False)"
proof -
  have h: "same_but_keys 1 (db_key ''sk-alpha'') (db_key ''sk-beta-2'')"
    by (simp add: same_but_keys_def db_key_def key_set_def trim_def white_space_def)
  have h2: "same_key_updates
      [(''tavily_api_key'', Some ''tv-1''), (''model'', Some ''gpt-5-mini'')]
      [(''tavily_api_key'', Some ''tv-22''), (''model'', Some ''gpt-5-mini'')]"
    by (simp add: same_key_updates_def key_set_def trim_def white_space_def)
  have s: "key_set (db_settings (db_key ''sk-alpha'') (1, ''openai_api_key''))"
    by (simp add: db_key_def key_set_def trim_def white_space_def)
  have m: "(DEFAULTS ++ getUserSettings (db_key ''sk-alpha'') 1) ''model'' = Some ''gpt-5''"
    by (simp add: db_key_def getUserSettings_def map_add_def)
  have b: "\<not> key_set (db_settings (db_key [CHR 0xC2, CHR 0xA0]) (1, ''openai_api_key''))"
    by (simp add: db_key_def key_set_def trim_def white_space_def)
  note T = settings_never_reveal_keys [OF h h2]
  note T1 = T [THEN conjunct1]
  note T2 = T [THEN conjunct2, THEN conjunct1]
  note T5 = T [THEN conjunct2, THEN conjunct2, THEN conjunct2, THEN conjunct2]
  have f1: "get_settings 1 (db_key ''sk-alpha'') ''openai_api_key'' = None"
    using T5 [THEN spec, of "''openai_api_key''"] by simp
  have f2: "get_settings 1 (db_key ''sk-alpha'') ''openai_api_key_set'' = Some (Bool True)"
    using T5 [THEN spec, of "''openai_api_key_set''"] s by simp
  have f3: "get_settings 1 (db_key ''sk-alpha'') ''model'' = Some (Str ''gpt-5'')"
    using T5 [THEN spec, of "''model''"] m by simp
  have f4: "get_settings 1 (db_key [CHR 0xC2, CHR 0xA0]) ''openai_api_key_set'' =
      Some (Bool False)"
    using get_settings_fields [of 1 "db_key [CHR 0xC2, CHR 0xA0]" "''openai_api_key_set''"] b
    by simp
  show ?thesis
    using h h2 T1 T2 f1 f2 f3 f4 by (intro conjI)
qed

section \<open>Properties of the remote tool gateway\<close>

text \<open>
  The regular expression matches exactly the host names that start with one of the
  listed prefixes, letters compared without case.
\<close>

lemma startsWith_append: "startsWith s p = (\<exists>r. s = p @ r)"
  by (induction s p rule: startsWith.induct) auto

lemma startsWith_Cons:
  "startsWith s (p # ps) = (case s of [] \<Rightarrow> False | c # cs \<Rightarrow> c = p \<and> startsWith cs ps)"
  by (cases s) simp_all

lemma startsWith_app:
  "startsWith s (p @ q) = (startsWith s p \<and> startsWith (drop (length p) s) q)"
  by (induction s p rule: startsWith.induct) auto

lemma second_octet_3:
  "(((d1 = CHR ''1'' \<and> d2 \<in> set ''6789'') \<or> (d1 = CHR ''2'' \<and> is_digit d2) \<or>
         (d1 = CHR ''3'' \<and> d2 \<in> set ''01'')) \<and> d3 = CHR ''.'') =
   list_ex (startsWith (d1 # d2 # d3 # rest))
     [''16.'', ''17.'', ''18.'', ''19.'', ''20.'', ''21.'', ''22.'', ''23.'', ''24.'', ''25.'',
      ''26.'', ''27.'', ''28.'', ''29.'', ''30.'', ''31.'']"
  (is "?L = ?R")
proof
  assume l: ?L
  then have d3: "d3 = CHR ''.''" by simp
  from l consider (a) "d1 = CHR ''1''" "d2 \<in> set ''6789''"
    | (b) "d1 = CHR ''2''" "is_digit d2" | (c) "d1 = CHR ''3''" "d2 \<in> set ''01''"
    by blast
  then show ?R
  proof cases
    case a
    then show ?thesis unfolding d3 a(1) by auto
  next
    case b
    then show ?thesis unfolding d3 b(1) by (auto simp: is_digit_def)
  next
    case c
    then show ?thesis unfolding d3 c(1) by auto
  qed
next
  assume ?R
  then have "(d1 = CHR ''1'' \<and> d2 = CHR ''6'' \<and> d3 = CHR ''.'') \<or>
      (d1 = CHR ''1'' \<and> d2 = CHR ''7'' \<and> d3 = CHR ''.'') \<or>
      (d1 = CHR ''1'' \<and> d2 = CHR ''8'' \<and> d3 = CHR ''.'') \<or>
      (d1 = CHR ''1'' \<and> d2 = CHR ''9'' \<and> d3 = CHR ''.'') \<or>
      (d1 = CHR ''2'' \<and> d2 = CHR ''0'' \<and> d3 = CHR ''.'') \<or>
      (d1 = CHR ''2'' \<and> d2 = CHR ''1'' \<and> d3 = CHR ''.'') \<or>
      (d1 = CHR ''2'' \<and> d2 = CHR ''2'' \<and> d3 = CHR ''.'') \<or>
      (d1 = CHR ''2'' \<and> d2 = CHR ''3'' \<and> d3 = CHR ''.'') \<or>
      (d1 = CHR ''2'' \<and> d2 = CHR ''4'' \<and> d3 = CHR ''.'') \<or>
      (d1 = CHR ''2'' \<and> d2 = CHR ''5'' \<and> d3 = CHR ''.'') \<or>
      (d1 = CHR ''2'' \<and> d2 = CHR ''6'' \<and> d3 = CHR ''.'') \<or>
      (d1 = CHR ''2'' \<and> d2 = CHR ''7'' \<and> d3 = CHR ''.'') \<or>
      (d1 = CHR ''2'' \<and> d2 = CHR ''8'' \<and> d3 = CHR ''.'') \<or>
      (d1 = CHR ''2'' \<and> d2 = CHR ''9'' \<and> d3 = CHR ''.'') \<or>
      (d1 = CHR ''3'' \<and> d2 = CHR ''0'' \<and> d3 = CHR ''.'') \<or>
      (d1 = CHR ''3'' \<and> d2 = CHR ''1'' \<and> d3 = CHR ''.'')"
    by simp
  then show ?L
    by (elim disjE conjE) (simp_all add: is_digit_def)
qed

lemma second_octet:
  "(case t of
      d1 # d2 # d3 # rest \<Rightarrow>
        ((d1 = CHR ''1'' \<and> d2 \<in> set ''6789'') \<or> (d1 = CHR ''2'' \<and> is_digit d2) \<or>
         (d1 = CHR ''3'' \<and> d2 \<in> set ''01'')) \<and> d3 = CHR ''.''
    | _ \<Rightarrow> False) =
   list_ex (startsWith t)
     [''16.'', ''17.'', ''18.'', ''19.'', ''20.'', ''21.'', ''22.'', ''23.'', ''24.'', ''25.'',
      ''26.'', ''27.'', ''28.'', ''29.'', ''30.'', ''31.'']"
proof (cases t)
  case Nil
  then show ?thesis by simp
next
  case t1: (Cons d1 t1)
  show ?thesis
  proof (cases t1)
    case Nil
    then show ?thesis using t1 by simp
  next
    case t2: (Cons d2 t2)
    show ?thesis
    proof (cases t2)
      case Nil
      then show ?thesis using t1 t2 by simp
    next
      case (Cons d3 t3)
      then show ?thesis unfolding t1 t2 Cons using second_octet_3 [of d1 d2 d3 t3]
        by (simp only: list.case)
    qed
  qed
qed

lemma private_172_iff:
  "private_172 h = list_ex (startsWith h)
     [''172.16.'', ''172.17.'', ''172.18.'', ''172.19.'', ''172.20.'', ''172.21.'', ''172.22.'',
      ''172.23.'', ''172.24.'', ''172.25.'', ''172.26.'', ''172.27.'', ''172.28.'', ''172.29.'',
      ''172.30.'', ''172.31.'']"
proof -
  have "length ''172.'' = 4" by simp
  then have p: "\<And>q. startsWith h (''172.'' @ q) = (startsWith h ''172.'' \<and> startsWith (drop 4 h) q)"
    using startsWith_app [of h "''172.''"] by (simp only:)
  have "list_ex (startsWith h)
     [''172.'' @ ''16.'', ''172.'' @ ''17.'', ''172.'' @ ''18.'', ''172.'' @ ''19.'',
      ''172.'' @ ''20.'', ''172.'' @ ''21.'', ''172.'' @ ''22.'', ''172.'' @ ''23.'',
      ''172.'' @ ''24.'', ''172.'' @ ''25.'', ''172.'' @ ''26.'', ''172.'' @ ''27.'',
      ''172.'' @ ''28.'', ''172.'' @ ''29.'', ''172.'' @ ''30.'', ''172.'' @ ''31.'']
    = (startsWith h ''172.'' \<and> list_ex (startsWith (drop 4 h))
     [''16.'', ''17.'', ''18.'', ''19.'', ''20.'', ''21.'', ''22.'', ''23.'', ''24.'', ''25.'',
      ''26.'', ''27.'', ''28.'', ''29.'', ''30.'', ''31.''])"
    unfolding list_ex_Nil_iff list_ex_Cons_iff p by (simp only: conj_disj_distribL simp_thms)
  then show ?thesis
    unfolding private_172_def second_octet by simp
qed

lemma PRIVATE_IP_RE_iff:
  "PRIVATE_IP_RE host = list_ex (startsWith (lower host)) private_prefixes"
  unfolding PRIVATE_IP_RE_def private_prefixes_def Let_def
    private_172_iff list_ex_Nil_iff list_ex_Cons_iff
  by (simp only: disj_assoc simp_thms)

text \<open>
  The expression is tested on the host name as the URL parser returns it.  The parser
  returns an IPv6 literal in brackets, and a host name that starts with a bracket is
  not matched.
\<close>

lemma bracketed_host_not_matched: "\<not> PRIVATE_IP_RE (CHR ''['' # host)"
  by (simp add: PRIVATE_IP_RE_iff private_prefixes_def lower_def lower_char_def)

text \<open>
  What \<open>validateMcpUrl\<close> rejects: a string that does not parse as a URL, a scheme
  other than \<open>http\<close> and \<open>https\<close>, a host name that starts with one of the listed
  prefixes, and the host name \<open>localhost\<close>.
\<close>

lemma validateMcpUrl_rejects:
  "(validateMcpUrl p rawUrl \<noteq> Inr ()) =
     (case p rawUrl of
        None \<Rightarrow> True
      | Some u \<Rightarrow>
          (url_protocol u \<noteq> ''http:'' \<and> url_protocol u \<noteq> ''https:'') \<or>
          list_ex (startsWith (lower (url_hostname u))) private_prefixes \<or>
          url_hostname u = ''localhost'')"
  by (simp add: validateMcpUrl_def PRIVATE_IP_RE_iff split: option.splits)

lemma validateMcpUrl_messages:
  "validateMcpUrl p rawUrl = Inl e \<Longrightarrow> e \<in> set validation_errors"
  by (auto simp: validateMcpUrl_def validation_errors_def split: option.splits if_splits)

text \<open>
  A request whose URL \<open>validateMcpUrl\<close> rejects fails with the validation message
  before any network I/O: the gateway's state, request log included, is unchanged,
  \<open>listTools\<close> yields no tools and \<open>callTool\<close> yields the error as text.
\<close>

lemma gateway_rejects_before_io:
  assumes "validateMcpUrl (parseURL pf) serverUrl = Inl e"
  shows "mcpRequest pf serverUrl method params a n = (Inl e, n) \<and>
         callTool pf serverUrl toolName ar a n = ([text_block (''Tool error: '' @ e)], n) \<and>
         listTools pf serverUrl a n = ([], n)"
proof -
  have r: "\<And>m p. mcpRequest pf serverUrl m p a n = (Inl e, n)"
    using assms by (simp add: mcpRequest_def)
  have "callTool pf serverUrl toolName ar a n = ([text_block (''Tool error: '' @ e)], n)"
    by (simp add: callTool_def mcpInitialize_def r)
  moreover have "listTools pf serverUrl a n = ([], n)"
    by (simp add: listTools_def mcpInitialize_def r)
  ultimately show ?thesis using r by blast
qed

text \<open>
  The routing map after discovery: a name belongs to the first server, in the order in
  which the discoveries settled, that lists it.
\<close>

lemma merge_tools_lookup:
  "snd (foldl (merge_tool srv a) cat ts) name =
     (case snd cat name of
        Some i \<Rightarrow> Some i
      | None \<Rightarrow> if list_ex (\<lambda>t. tool_name t = name) ts
                then Some \<lparr>si_url = srv_url srv, si_auth = a\<rparr> else None)"
proof (induction ts arbitrary: cat)
  case Nil
  then show ?case by (simp split: option.splits)
next
  case (Cons t ts)
  show ?case
    unfolding foldl_Cons Cons.IH
    by (auto simp: merge_tool_def split: option.splits)
qed

lemma merge_server_lookup:
  "snd (merge_server pf listed cat s) name =
     (case snd cat name of
        Some i \<Rightarrow> Some i
      | None \<Rightarrow> if offers pf listed name s then Some (info_of pf s) else None)"
  by (cases "buildAuth pf s")
    (auto simp: merge_server_def merge_tools_lookup offers_def info_of_def split: option.splits)

lemma merge_servers_lookup:
  "snd (foldl (merge_server pf listed) cat srvs) name =
     (case snd cat name of
        Some i \<Rightarrow> Some i
      | None \<Rightarrow> map_option (info_of pf) (find (offers pf listed name) srvs))"
proof (induction srvs arbitrary: cat)
  case Nil
  then show ?case by (simp split: option.splits)
next
  case (Cons s srvs)
  show ?case
    unfolding foldl_Cons Cons.IH merge_server_lookup
    by (simp split: option.splits)
qed

lemma collect_lookup:
  "snd (collectMCPTools pf listed servers settled) name =
     map_option (info_of pf) (find (offers pf listed name) (settled_servers servers settled))"
  by (simp add: collectMCPTools_def settled_servers_def merge_servers_lookup)

lemma settled_in_order: "settled_servers servers [0..<length servers] = servers"
  by (simp add: settled_servers_def map_nth)

lemma merge_tools_entries:
  "catalog_entries name (foldl (merge_tool srv a) cat ts) =
     catalog_entries name cat @
     (if snd cat name = None \<and> list_ex (\<lambda>t. tool_name t = name) ts
      then [Some (srv_url srv)] else [])"
proof (induction ts arbitrary: cat)
  case Nil
  then show ?case by simp
next
  case (Cons t ts)
  have e: "catalog_entries name (merge_tool srv a cat t) =
      catalog_entries name cat @
      (if snd cat (tool_name t) = None \<and> tool_name t = name then [Some (srv_url srv)] else [])"
    by (auto simp: merge_tool_def mcpToolsToOpenAI_def catalog_entries_def split: option.splits)
  have m: "snd (merge_tool srv a cat t) name =
      (if snd cat (tool_name t) = None \<and> tool_name t = name
       then Some \<lparr>si_url = srv_url srv, si_auth = a\<rparr> else snd cat name)"
    by (auto simp: merge_tool_def split: option.splits)
  show ?case
    unfolding foldl_Cons Cons.IH e m by auto
qed

lemma merge_server_entries:
  "catalog_entries name (merge_server pf listed cat s) =
     catalog_entries name cat @
     (if snd cat name = None \<and> offers pf listed name s then [Some (srv_url s)] else [])"
  by (cases "buildAuth pf s")
    (auto simp: merge_server_def merge_tools_entries offers_def split: option.splits)

lemma merge_servers_entries:
  "catalog_entries name (foldl (merge_server pf listed) cat srvs) =
     catalog_entries name cat @
     (case snd cat name of
        Some i \<Rightarrow> []
      | None \<Rightarrow> (case find (offers pf listed name) srvs of
                   Some s \<Rightarrow> [Some (srv_url s)]
                 | None \<Rightarrow> []))"
proof (induction srvs arbitrary: cat)
  case Nil
  then show ?case by (simp split: option.splits)
next
  case (Cons s srvs)
  show ?case
    unfolding foldl_Cons Cons.IH merge_server_entries merge_server_lookup
    by (simp split: option.splits)
qed

lemma collect_entries:
  "catalog_entries name (collectMCPTools pf listed servers settled) =
     (case find (offers pf listed name) (settled_servers servers settled) of
        Some s \<Rightarrow> [Some (srv_url s)]
      | None \<Rightarrow> [])"
proof -
  have "catalog_entries name ([], Map.empty) = []"
    by (simp add: catalog_entries_def)
  then show ?thesis
    unfolding collectMCPTools_def settled_servers_def merge_servers_entries by simp
qed

text \<open>
  A request to a server is logged under that server's URL, so a tool call reaches the
  server of its routing entry only.
\<close>

lemma mcpRequest_log:
  "\<exists>rs. net_log (snd (mcpRequest pf url m p a n)) = net_log n @ rs \<and> set (map rq_url rs) \<subseteq> {url}"
  by (auto simp: mcpRequest_def Let_def nextId_def split: sum.splits fetch_result.splits option.splits)

lemma callTool_log:
  "\<exists>rs. net_log (snd (callTool pf url nm ar a n)) = net_log n @ rs \<and> set (map rq_url rs) \<subseteq> {url}"
proof -
  obtain r1 n1 where i: "mcpInitialize pf url a n = (r1, n1)" by fastforce
  obtain rs1 where l1: "net_log n1 = net_log n @ rs1" "set (map rq_url rs1) \<subseteq> {url}"
    using mcpRequest_log [of pf url "''initialize''" InitializeParams a n] i
    by (auto simp: mcpInitialize_def)
  obtain r2 n2 where c: "mcpRequest pf url ''tools/call'' (CallParams nm ar) a n1 = (r2, n2)"
    by fastforce
  obtain rs2 where l2: "net_log n2 = net_log n1 @ rs2" "set (map rq_url rs2) \<subseteq> {url}"
    using mcpRequest_log [of pf url "''tools/call''" "CallParams nm ar" a n1] c by auto
  have "snd (callTool pf url nm ar a n) = n1 \<or> snd (callTool pf url nm ar a n) = n2"
    using i c by (auto simp: callTool_def split: sum.splits option.splits)
  then show ?thesis
  proof
    assume "snd (callTool pf url nm ar a n) = n1"
    then show ?thesis using l1 by auto
  next
    assume "snd (callTool pf url nm ar a n) = n2"
    then have "net_log (snd (callTool pf url nm ar a n)) = net_log n @ (rs1 @ rs2)"
      using l1 l2 by simp
    moreover have "set (map rq_url (rs1 @ rs2)) \<subseteq> {url}" using l1 l2 by auto
    ultimately show ?thesis by blast
  qed
qed

lemma toolExecutor_requests:
  "set (map rq_url (new_requests st (snd (toolExecutor pf sv now ctx tmap name a st)))) \<subseteq>
     (case tmap name of Some i \<Rightarrow> {si_url i} | None \<Rightarrow> {})"
proof (cases "list_ex (\<lambda>t. td_name t = name) BUILTIN_TOOLS")
  case True
  then show ?thesis
    by (simp add: toolExecutor_def new_requests_def Let_def)
next
  case False
  show ?thesis
  proof (cases "tmap name")
    case None
    then show ?thesis using False by (simp add: toolExecutor_def new_requests_def)
  next
    case (Some i)
    obtain rs where "net_log (snd (callTool pf (si_url i) name a (si_auth i) (cs_net st))) =
        net_log (cs_net st) @ rs" "set (map rq_url rs) \<subseteq> {si_url i}"
      using callTool_log by blast
    then show ?thesis using False Some
      by (simp add: toolExecutor_def new_requests_def Let_def)
  qed
qed

text \<open>
  The merge in general: for a name, the routing map and the catalog hold the entry of
  the first server, in the order in which the discoveries settled, whose task merges a
  tool of that name, and no entry of another server; an invocation of the name sends
  requests to that server only (to no server when the name is a built-in tool's or no
  server lists it).  When the discoveries settle in the order of enumeration, that server
  is the first enumerated (lemma \<open>settled_in_order\<close>).
\<close>

lemma first_settled_server_wins:
  "snd (collectMCPTools pf listed servers settled) name =
     map_option (info_of pf) (find (offers pf listed name) (settled_servers servers settled)) \<and>
   catalog_entries name (collectMCPTools pf listed servers settled) =
     (case find (offers pf listed name) (settled_servers servers settled) of
        Some srv \<Rightarrow> [Some (srv_url srv)]
      | None \<Rightarrow> []) \<and>
   set (map rq_url (new_requests st
     (snd (toolExecutor pf sv now ctx (snd (collectMCPTools pf listed servers settled)) name a st))))
   \<subseteq> (case find (offers pf listed name) (settled_servers servers settled) of
        Some srv \<Rightarrow> {srv_url srv}
      | None \<Rightarrow> {})"
proof -
  have "(case snd (collectMCPTools pf listed servers settled) name of
           Some i \<Rightarrow> {si_url i} | None \<Rightarrow> {}) =
        (case find (offers pf listed name) (settled_servers servers settled) of
           Some srv \<Rightarrow> {srv_url srv} | None \<Rightarrow> {})"
    by (simp add: collect_lookup info_of_def split: option.splits)
  then have "set (map rq_url (new_requests st
     (snd (toolExecutor pf sv now ctx (snd (collectMCPTools pf listed servers settled)) name a st))))
   \<subseteq> (case find (offers pf listed name) (settled_servers servers settled) of
        Some srv \<Rightarrow> {srv_url srv}
      | None \<Rightarrow> {})"
    using toolExecutor_requests
      [of st pf sv now ctx "snd (collectMCPTools pf listed servers settled)" name a]
    by simp
  then show ?thesis
    using collect_lookup [of pf listed servers settled name]
      collect_entries [of name pf listed servers settled]
    by (intro conjI)
qed

text \<open>
  Claim C2: of two enabled servers that list a tool of the same name, the merge keeps
  the tool of the server enumerated first, and every invocation of the name goes to
  that server only.  The merge of a server runs when its discovery settles: server A is
  enumerated first and both servers list \<open>search\<close>, but the discovery of server B
  settles first, so B keeps the name and the invocation of \<open>search\<close> sends its two
  requests to B.  (Had the discoveries settled in the order of enumeration, A would
  keep the name.)
\<close>

theorem second_server_wins_when_it_settles_first:
  "getUserMCPServers two_servers_db 1 = [server_a, server_b] \<and>
   offers example_platform (\<lambda>srv. [search_tool]) ''search'' server_a \<and>
   offers example_platform (\<lambda>srv. [search_tool]) ''search'' server_b \<and>
   snd (collectMCPTools example_platform (\<lambda>srv. [search_tool])
          (getUserMCPServers two_servers_db 1) settle_b_first) ''search'' =
     Some \<lparr>si_url = srv_url server_b, si_auth = None\<rparr> \<and>
   snd (collectMCPTools example_platform (\<lambda>srv. [search_tool])
          (getUserMCPServers two_servers_db 1) settle_in_order) ''search'' =
     Some \<lparr>si_url = srv_url server_a, si_auth = None\<rparr> \<and>
   map td_mcpServer (fst (collectMCPTools example_platform (\<lambda>srv. [search_tool])
          (getUserMCPServers two_servers_db 1) settle_b_first)) = [Some (srv_url server_b)] \<and>
   map rq_url (new_requests chat0 (snd (toolExecutor example_platform example_services 0 ctx1
     (snd (collectMCPTools example_platform (\<lambda>srv. [search_tool])
          (getUserMCPServers two_servers_db 1) settle_b_first)) ''search'' [] chat0))) =
     [srv_url server_b, srv_url server_b]"
proof -
  have s: "getUserMCPServers two_servers_db 1 = [server_a, server_b]"
    by (simp add: getUserMCPServers_def two_servers_db_def empty_db_def server_a_def server_b_def)
  have o: "offers example_platform (\<lambda>srv. [search_tool]) ''search'' server_a"
      "offers example_platform (\<lambda>srv. [search_tool]) ''search'' server_b"
    by (simp_all add: offers_def search_tool_def buildAuth_def server_a_def server_b_def)
  have m: "snd (collectMCPTools example_platform (\<lambda>srv. [search_tool]) [server_a, server_b]
       settle_b_first) ''search'' = Some \<lparr>si_url = srv_url server_b, si_auth = None\<rparr>"
    by (simp add: collectMCPTools_def merge_server_def merge_tool_def search_tool_def
        mcpToolsToOpenAI_def buildAuth_def server_a_def server_b_def settle_b_first_def)
  have m2: "snd (collectMCPTools example_platform (\<lambda>srv. [search_tool]) [server_a, server_b]
       settle_in_order) ''search'' = Some \<lparr>si_url = srv_url server_a, si_auth = None\<rparr>"
    by (simp add: collectMCPTools_def merge_server_def merge_tool_def search_tool_def
        mcpToolsToOpenAI_def buildAuth_def server_a_def server_b_def settle_in_order_def)
  have t: "map td_mcpServer (fst (collectMCPTools example_platform (\<lambda>srv. [search_tool])
       [server_a, server_b] settle_b_first)) = [Some (srv_url server_b)]"
    by (simp add: collectMCPTools_def merge_server_def merge_tool_def search_tool_def
        mcpToolsToOpenAI_def buildAuth_def server_a_def server_b_def settle_b_first_def)
  have v: "validateMcpUrl (parseURL example_platform) (srv_url server_b) = Inr ()"
    by (simp add: validateMcpUrl_def example_platform_def example_urls_def PRIVATE_IP_RE_def
        lower_def lower_char_def private_172_def server_b_def)
  have b: "\<not> list_ex (\<lambda>t. td_name t = ''search'') BUILTIN_TOOLS"
    by (simp add: BUILTIN_TOOLS_def)
  have f: "fetch example_platform = (\<lambda>rq. Fetched ok_response)"
    by (simp add: example_platform_def)
  have r: "map rq_url (new_requests chat0 (snd (toolExecutor example_platform example_services 0
     ctx1 (snd (collectMCPTools example_platform (\<lambda>srv. [search_tool]) [server_a, server_b]
       settle_b_first)) ''search'' [] chat0))) = [srv_url server_b, srv_url server_b]"
    by (simp add: toolExecutor_def b m callTool_def mcpInitialize_def mcpRequest_def v f
        nextId_def ok_response_def new_requests_def chat0_def net0_def Let_def)
  show ?thesis
    unfolding s using o m m2 t r by (intro conjI refl)
qed

section \<open>Properties of the provider adapter\<close>

declare rounds.simps [simp del]

lemma heap_kept_refl: "heap_kept n st st"
  by (simp add: heap_kept_def)

lemma heap_kept_trans: "heap_kept n a b \<Longrightarrow> heap_kept n b c \<Longrightarrow> heap_kept n a c"
  by (simp add: heap_kept_def)

lemma heap_kept_heap_eq: "as_heap st' = as_heap st \<Longrightarrow> heap_kept n st st'"
  by (simp add: heap_kept_def)

lemma heap_push: "n \<le> r \<Longrightarrow> heap_kept n st (push r m st)"
  by (simp add: heap_kept_def push_def)

lemma heap_callbacks:
  "as_heap (onChunk opts d st) = as_heap st"
  "as_heap (onToolCall opts nm a st) = as_heap st"
  "as_heap (onToolResult opts nm r st) = as_heap st"
  "as_heap (onDone opts f st) = as_heap st"
  "as_heap (onError opts e st) = as_heap st"
  by (simp_all add: onChunk_def onToolCall_def onToolResult_def onDone_def onError_def
      split: option.splits)

lemma heap_on_chunk: "as_heap (rs_st (on_chunk opts rs ch)) = as_heap (rs_st rs)"
  by (cases ch) (simp_all add: on_chunk_def Let_def heap_callbacks)

lemma heap_chunks: "as_heap (rs_st (foldl (on_chunk opts) rs chs)) = as_heap (rs_st rs)"
  by (induction chs arbitrary: rs) (simp_all add: heap_on_chunk)

lemma heap_run_tool: "n \<le> copy \<Longrightarrow> heap_kept n st (run_tool opts w exec copy st tc)"
proof -
  assume n: "n \<le> copy"
  define pa where "pa = (case parseArgs w (if tc_args tc = [] then ''{}'' else tc_args tc) of
                          Some a \<Rightarrow> a | None \<Rightarrow> [])"
  define st1 where "st1 = onToolCall opts (tc_name tc) pa st"
  define r where "r = exec (tc_name tc) pa (as_ext st1)"
  define rt where "rt = (case fst r of Inr t \<Rightarrow> t | Inl m \<Rightarrow> ''Error: '' @ m)"
  define st3 where "st3 = onToolResult opts (tc_name tc) rt
      (st1\<lparr>as_calls := as_calls st1 @ [ToolExecutor (tc_name tc) pa], as_ext := snd r\<rparr>)"
  have e: "run_tool opts w exec copy st tc = push copy (ToolMsg (tc_id tc) rt) st3"
    by (simp add: run_tool_def Let_def pa_def st1_def r_def rt_def st3_def)
  have "as_heap st3 = as_heap st"
    by (simp add: st3_def st1_def heap_callbacks)
  then have "heap_kept n st st3" by (rule heap_kept_heap_eq)
  then show ?thesis
    unfolding e using heap_push [OF n] heap_kept_trans by blast
qed

lemma heap_run_tools:
  "n \<le> copy \<Longrightarrow> heap_kept n st (foldl (run_tool opts w exec copy) st tcs)"
proof (induction tcs arbitrary: st)
  case Nil
  then show ?case by (simp add: heap_kept_refl)
next
  case (Cons tc tcs)
  then show ?case
    using heap_run_tool [of n copy st opts w exec tc] heap_kept_trans by fastforce
qed

lemma heap_one_round:
  assumes "n \<le> copy"
  shows "heap_kept n st (step_state (one_round opts w copy full st))"
proof -
  define st1 where "st1 = st\<lparr>as_requests := as_requests st @ [build_params opts w (as_heap st ! copy)]\<rparr>"
  have h1: "heap_kept n st st1" by (simp add: st1_def heap_kept_def)
  show ?thesis
  proof (cases "provider w (length (as_requests st)) (build_params opts w (as_heap st ! copy))")
    case (Inl e)
    then show ?thesis using h1 by (simp add: one_round_def Let_def st1_def)
  next
    case (Inr s)
    define rs where "rs = foldl (on_chunk opts)
        \<lparr>rs_fullResponse = full, rs_chunkText = [], rs_finishReason = [],
          rs_toolCallsAcc = [], rs_st = st1\<rparr> (st_chunks s)"
    have h2: "heap_kept n st (rs_st rs)"
      using h1 by (simp add: rs_def heap_chunks heap_kept_def)
    have h3: "heap_kept n st (onDone opts (rs_fullResponse rs) (rs_st rs))"
      using h2 by (simp add: heap_kept_def heap_callbacks)
    have h4: "heap_kept n st (foldl (run_tool opts w exec copy) (push copy m (rs_st rs)) tcs)"
      for exec m tcs
    proof -
      have a: "heap_kept n (rs_st rs) (push copy m (rs_st rs))"
        by (rule heap_push [OF assms])
      have b: "heap_kept n (push copy m (rs_st rs))
                 (foldl (run_tool opts w exec copy) (push copy m (rs_st rs)) tcs)"
        by (rule heap_run_tools [OF assms])
      show ?thesis
        by (rule heap_kept_trans [OF h2 heap_kept_trans [OF a b]])
    qed
    show ?thesis
      using Inr h2 h3 h4
      by (simp add: one_round_def Let_def st1_def [symmetric] rs_def [symmetric]
          split: option.splits)
  qed
qed

lemma heap_rounds:
  "n \<le> copy \<Longrightarrow> heap_kept n st (out_state (rounds opts w copy round full st))"
proof (induction opts w copy round full st rule: rounds.induct)
  case (1 opts w copy round full st)
  show ?case
  proof (cases "round < 10")
    case False
    then show ?thesis
      by (simp add: rounds.simps [of opts w copy round] heap_kept_def heap_callbacks)
  next
    case True
    show ?thesis
    proof (cases "one_round opts w copy full st")
      case (Stop out)
      then show ?thesis
        using True heap_one_round [OF "1.prems", of st opts w full]
        by (simp add: rounds.simps [of opts w copy round])
    next
      case (Continue full' st')
      then have "heap_kept n st st'"
        using heap_one_round [OF "1.prems", of st opts w full] by simp
      moreover have "heap_kept n st' (out_state (rounds opts w copy (Suc round) full' st'))"
        using "1.IH" [OF True Continue "1.prems"] .
      ultimately show ?thesis
        using True Continue heap_kept_trans
        by (simp add: rounds.simps [of opts w copy round]) blast
    qed
  qed
qed

lemma heap_streamOpenAI:
  "take (length (as_heap st)) (as_heap (snd (streamOpenAI opts w st))) = as_heap st"
proof (cases "o_apiKey opts = []")
  case True
  then show ?thesis by (simp add: streamOpenAI_def)
next
  case False
  define st0 where "st0 = st\<lparr>as_heap := as_heap st @ [as_heap st ! o_messages opts]\<rparr>"
  define out where "out = rounds opts w (length (as_heap st)) 0 [] st0"
  have k: "heap_kept (length (as_heap st)) st0 (out_state out)"
    unfolding out_def by (rule heap_rounds) simp
  have "take (length (as_heap st)) (as_heap (out_state out)) = as_heap st"
    using k by (simp add: heap_kept_def st0_def)
  then show ?thesis
    using False
    by (cases out)
      (simp_all add: streamOpenAI_def Let_def st0_def [symmetric] out_def [symmetric] heap_callbacks)
qed

text \<open>
  Claim C10: the adapter never mutates the caller's message list.  After
  \<open>streamChat\<close> the caller's array holds the messages it held before, and so does
  every array that existed before the call; the turns of the rounds go to the copy
  allocated behind them.
\<close>

theorem adapter_keeps_caller_messages:
  assumes "o_messages opts < length (as_heap st)"
  shows "as_heap (snd (streamChat opts w st)) ! o_messages opts = as_heap st ! o_messages opts \<and>
         as_heap (snd (streamOpenAI opts w st)) ! o_messages opts = as_heap st ! o_messages opts \<and>
         take (length (as_heap st)) (as_heap (snd (streamChat opts w st))) = as_heap st \<and>
         take (length (as_heap st)) (as_heap (snd (streamOpenAI opts w st))) = as_heap st"
proof -
  have t: "take (length (as_heap st)) (as_heap (snd (streamChat opts w st))) = as_heap st"
    by (simp add: streamChat_def Let_def heap_streamOpenAI heap_callbacks)
  have u: "take (length (as_heap st)) (as_heap (snd (streamOpenAI opts w st))) = as_heap st"
    by (rule heap_streamOpenAI)
  have n: "take (length (as_heap st)) h ! o_messages opts = h ! o_messages opts" for h
    using assms by simp
  have "as_heap (snd (streamChat opts w st)) ! o_messages opts = as_heap st ! o_messages opts"
    using n [of "as_heap (snd (streamChat opts w st))"] t by simp
  moreover have "as_heap (snd (streamOpenAI opts w st)) ! o_messages opts =
      as_heap st ! o_messages opts"
    using n [of "as_heap (snd (streamOpenAI opts w st))"] u by simp
  ultimately show ?thesis using t u by (intro conjI)
qed

text \<open>
  With a provider that ends every round with a tool call, the adapter sends exactly ten
  requests and then completes with the text of the ten rounds; the copy then holds the
  caller's message and the twenty turns of the rounds.
\<close>

lemma loop_run:
  "length (as_requests (snd (streamOpenAI loop_opts loop_world adapter0))) = 10"
  "last (as_calls (snd (streamOpenAI loop_opts loop_world adapter0))) = OnDone ''aaaaaaaaaa''"
  "length (as_heap (snd (streamChat loop_opts loop_world adapter0)) ! 1) = 21"
  by code_simp+

text \<open>
  The caller's array of one message is as before after the ten rounds.
\<close>

theorem adapter_keeps_caller_messages_witness:
  "o_messages loop_opts < length (as_heap adapter0) \<and>
   as_heap (snd (streamChat loop_opts loop_world adapter0)) ! 0 = [Msg ''user'' ''hi''] \<and>
   length (as_heap (snd (streamChat loop_opts loop_world adapter0)) ! 1) = 21"
proof -
  have h: "o_messages loop_opts < length (as_heap adapter0)"
    by (simp add: loop_opts_def adapter0_def)
  have "as_heap (snd (streamChat loop_opts loop_world adapter0)) ! o_messages loop_opts =
        as_heap adapter0 ! o_messages loop_opts"
    by (rule adapter_keeps_caller_messages [OF h, THEN conjunct1])
  then have "as_heap (snd (streamChat loop_opts loop_world adapter0)) ! 0 = [Msg ''user'' ''hi'']"
    by (simp add: loop_opts_def adapter0_def)
  then show ?thesis
    using h loop_run(3) by (intro conjI)
qed




























section \<open>Properties of the chat route\<close>



















text \<open>
  Claim C4: a request whose URL is not an absolute \<open>http\<close>/\<open>https\<close> URL, or whose
  host matches a loopback, private, link-local or IPv6 unique-local or loopback pattern,
  or is \<open>localhost\<close>, fails before any network I/O.  The regular expression lists
  \<open>::1\<close>, \<open>fc\<close>, \<open>fd\<close> and \<open>fe80\<close>, but it is tested on the host name as
  the URL parser returns it, in brackets: the URLs of the IPv6 loopback, of a
  unique-local and of a link-local address pass the validation, and the gateway sends
  its requests to them.  The IPv4 loopback URL is rejected with nothing sent.
\<close>

theorem gateway_sends_to_ipv6_loopback:
  "parseURL example_platform ''http://[::1]/mcp'' =
     Some \<lparr>url_protocol = ''http:'', url_hostname = ''[::1]''\<rparr> \<and>
   PRIVATE_IP_RE ''::1'' \<and> \<not> PRIVATE_IP_RE ''[::1]'' \<and>
   validateMcpUrl (parseURL example_platform) ''http://[::1]/mcp'' = Inr () \<and>
   validateMcpUrl (parseURL example_platform) ''http://[fd00::1]/mcp'' = Inr () \<and>
   validateMcpUrl (parseURL example_platform) ''http://[fe80::1]/mcp'' = Inr () \<and>
   map rq_url (net_log (snd (mcpRequest example_platform ''http://[::1]/mcp'' ''tools/list''
     NoParams None net0))) = [''http://[::1]/mcp''] \<and>
   map rq_url (net_log (snd (callTool example_platform ''http://[::1]/mcp'' ''search'' []
     None net0))) = [''http://[::1]/mcp'', ''http://[::1]/mcp''] \<and>
   fst (callTool example_platform ''http://[::1]/mcp'' ''search'' [] None net0) =
     [text_block ''ok''] \<and>
   mcpRequest example_platform ''http://127.0.0.1/x'' ''tools/list'' NoParams None net0 =
     (Inl ''MCP server URL must not point to a private or loopback address'', net0)"
proof -
  have p: "parseURL example_platform ''http://[::1]/mcp'' =
      Some \<lparr>url_protocol = ''http:'', url_hostname = ''[::1]''\<rparr>"
    by (simp add: example_platform_def example_urls_def)
  have m: "PRIVATE_IP_RE ''::1''" "\<not> PRIVATE_IP_RE ''[::1]''"
    by (simp_all add: PRIVATE_IP_RE_def lower_def lower_char_def private_172_def)
  have v1: "validateMcpUrl (parseURL example_platform) ''http://[::1]/mcp'' = Inr ()"
    by (simp add: validateMcpUrl_def example_platform_def example_urls_def PRIVATE_IP_RE_def
        lower_def lower_char_def private_172_def)
  have v2: "validateMcpUrl (parseURL example_platform) ''http://[fd00::1]/mcp'' = Inr ()"
    by (simp add: validateMcpUrl_def example_platform_def example_urls_def PRIVATE_IP_RE_def
        lower_def lower_char_def private_172_def)
  have v3: "validateMcpUrl (parseURL example_platform) ''http://[fe80::1]/mcp'' = Inr ()"
    by (simp add: validateMcpUrl_def example_platform_def example_urls_def PRIVATE_IP_RE_def
        lower_def lower_char_def private_172_def)
  have f: "fetch example_platform = (\<lambda>rq. Fetched ok_response)"
    by (simp add: example_platform_def)
  have r: "map rq_url (net_log (snd (mcpRequest example_platform ''http://[::1]/mcp''
      ''tools/list'' NoParams None net0))) = [''http://[::1]/mcp'']"
    by (simp add: mcpRequest_def v1 f nextId_def ok_response_def net0_def Let_def)
  have c: "map rq_url (net_log (snd (callTool example_platform ''http://[::1]/mcp'' ''search'' []
      None net0))) = [''http://[::1]/mcp'', ''http://[::1]/mcp'']"
      "fst (callTool example_platform ''http://[::1]/mcp'' ''search'' [] None net0) =
      [text_block ''ok'']"
    by (simp_all add: callTool_def mcpInitialize_def mcpRequest_def v1 f nextId_def
        ok_response_def net0_def Let_def)
  have l: "mcpRequest example_platform ''http://127.0.0.1/x'' ''tools/list'' NoParams None net0 =
     (Inl ''MCP server URL must not point to a private or loopback address'', net0)"
    by (simp add: mcpRequest_def validateMcpUrl_def example_platform_def example_urls_def
        PRIVATE_IP_RE_def lower_def lower_char_def)
  show ?thesis
    using p m v1 v2 v3 r c l by (intro conjI)
qed

end
